theory Spec2Isabelle
  imports Complex_Main "HOL-Library.Word" "HOL-Library.List_Lexorder" "HOL-Library.Char_ord"
begin

section \<open>Python strings and values\<close>

text \<open>
  Strings are lists of bytes. \<open>str.lower\<close> is modelled on the ASCII letters; the only
  non-ASCII character that Python lowers to an ASCII letter is the Kelvin sign (to \<open>k\<close>),
  and no keyword compared below contains a \<open>k\<close>.
\<close>

type_synonym bytes = "char list"

definition lower_char :: "char \<Rightarrow> char" where
  "lower_char c =
     (case map_of (zip ''ABCDEFGHIJKLMNOPQRSTUVWXYZ'' ''abcdefghijklmnopqrstuvwxyz'') c of
        Some l \<Rightarrow> l
      | None \<Rightarrow> c)"

definition lower :: "string \<Rightarrow> string" where
  "lower s = map lower_char s"

text \<open>\<open>sep.join(xs)\<close>\<close>

fun join :: "string \<Rightarrow> string list \<Rightarrow> string" where
  "join sep [] = []"
| "join sep [x] = x"
| "join sep (x # y # ys) = x @ sep @ join sep (y # ys)"

text \<open>\<open>s.lstrip(cs)\<close> and \<open>s.strip(cs)\<close>\<close>

definition lstrip :: "string \<Rightarrow> string \<Rightarrow> string" where
  "lstrip cs s = dropWhile (\<lambda>c. c \<in> set cs) s"

definition strip :: "string \<Rightarrow> string \<Rightarrow> string" where
  "strip cs s = rev (dropWhile (\<lambda>c. c \<in> set cs) (rev (dropWhile (\<lambda>c. c \<in> set cs) s)))"

text \<open>\<open>a or b\<close> on strings, and on optional strings (\<open>None\<close> and \<open>''\<close> are both falsy).\<close>

definition str_or :: "string \<Rightarrow> string \<Rightarrow> string" where
  "str_or a b = (if a = [] then b else a)"

definition opt_or :: "string option \<Rightarrow> string \<Rightarrow> string" where
  "opt_or a b = (case a of None \<Rightarrow> b | Some s \<Rightarrow> str_or s b)"

text \<open>Decimal and hexadecimal rendering.\<close>

definition digit_char :: "nat \<Rightarrow> char" where
  "digit_char d = ''0123456789abcdef'' ! (d mod 16)"

fun str_nat :: "nat \<Rightarrow> string" where
  "str_nat n = (if n < 10 then [digit_char n] else str_nat (n div 10) @ [digit_char (n mod 10)])"

declare str_nat.simps [simp del]

definition zfill :: "nat \<Rightarrow> string \<Rightarrow> string" where
  "zfill w s = replicate (w - length s) (CHR ''0'') @ s"

fun hex_fixed :: "nat \<Rightarrow> nat \<Rightarrow> string" where
  "hex_fixed 0 n = []"
| "hex_fixed (Suc k) n = hex_fixed k (n div 16) @ [digit_char (n mod 16)]"

section \<open>Configuration (config.py)\<close>

datatype Provider = OpenAI | Azure

record OpenAIConfig =
  provider :: Provider
  api_key :: string
  base_url :: "string option"
  organization :: "string option"
  azure_endpoint :: "string option"
  azure_api_version :: "string option"
  azure_ad_token :: "string option"
  chat_model :: string
  image_model :: string
  audio_model :: string
  default_voice :: string
  video_model :: string

record AzureBlobStorageConfig =
  connection_string :: string
  container :: string
  public_base_url :: string
  path_prefix :: "string option"
  image_root :: string
  audio_root :: string
  video_root :: string

section \<open>Blob naming (AzureBlobUploader)\<close>

text \<open>
  \<open>datetime.datetime.utcnow()\<close> and \<open>uuid.uuid4()\<close> are inputs from the environment:
  a calendar time and a 128-bit value.
\<close>

record datetime =
  year :: nat
  month :: nat
  day :: nat
  hour :: nat
  minute :: nat
  second :: nat

text \<open>
  The times considered have their fields in range and a year from 1000 on, where \<open>%Y\<close>
  is four digits on every platform.
\<close>

definition valid_datetime :: "datetime \<Rightarrow> bool" where
  "valid_datetime t \<longleftrightarrow>
     1000 \<le> year t \<and> year t \<le> 9999 \<and> 1 \<le> month t \<and> month t \<le> 12 \<and>
     1 \<le> day t \<and> day t \<le> 31 \<and> hour t < 24 \<and> minute t < 60 \<and> second t < 60"

text \<open>\<open>t.strftime("%Y%m%dT%H%M%S")\<close>\<close>

definition strftime :: "datetime \<Rightarrow> string" where
  "strftime t =
     zfill 4 (str_nat (year t)) @ zfill 2 (str_nat (month t)) @ zfill 2 (str_nat (day t)) @
     ''T'' @
     zfill 2 (str_nat (hour t)) @ zfill 2 (str_nat (minute t)) @ zfill 2 (str_nat (second t))"

text \<open>\<open>uuid.uuid4().hex\<close>, that is \<open>'%032x' % int\<close>\<close>

definition uuid_hex :: "128 word \<Rightarrow> string" where
  "uuid_hex u = hex_fixed 32 (unat u)"

definition root_for_category :: "AzureBlobStorageConfig \<Rightarrow> string \<Rightarrow> string" where
  "root_for_category cfg category =
     (let normalized = str_or (strip ''/'' (str_or category ''media'')) ''media'';
          mapping = [(''images'', image_root cfg),
                     (''image'', image_root cfg),
                     (''audio'', audio_root cfg),
                     (''videos'', video_root cfg),
                     (''video'', video_root cfg)]
      in case map_of mapping normalized of Some r \<Rightarrow> r | None \<Rightarrow> normalized)"

definition build_blob_name ::
  "AzureBlobStorageConfig \<Rightarrow> datetime \<Rightarrow> 128 word \<Rightarrow> string \<Rightarrow> string \<Rightarrow> string" where
  "build_blob_name cfg now u category extension =
     (let timestamp = strftime now;
          unique = uuid_hex u;
          sanitized_category = root_for_category cfg category;
          filename = timestamp @ ''-'' @ unique @ ''.'' @ extension;
          segments = filter (\<lambda>segment. segment \<noteq> [])
                       [opt_or (path_prefix cfg) [], sanitized_category, filename]
      in join ''/'' segments)"

section \<open>Errors, values and the outside world\<close>

text \<open>
  Exceptions are values. \<open>ExternalError\<close> stands for any exception raised by the
  provider SDK or the storage SDK.
\<close>

datatype error =
    ValueError string
  | RuntimeError string
  | IndexError
  | ExternalError string

text \<open>JSON-like Python values, for the \<open>Any\<close>-typed chat content and metadata.\<close>

datatype pyval =
    PyNone
  | PyBool bool
  | PyInt int
  | PyStr string
  | PyList "pyval list"
  | PyDict "(string \<times> pyval) list"

fun truthy :: "pyval \<Rightarrow> bool" where
  "truthy PyNone = False"
| "truthy (PyBool b) = b"
| "truthy (PyInt i) = (i \<noteq> 0)"
| "truthy (PyStr s) = (s \<noteq> [])"
| "truthy (PyList xs) = (xs \<noteq> [])"
| "truthy (PyDict kvs) = (kvs \<noteq> [])"

text \<open>
  \<open>str(v)\<close> is \<open>v\<close> itself for a string and \<open>repr(v)\<close> for the other values.
  Python's \<open>repr\<close> is a parameter of the model.
\<close>

definition py_str :: "(pyval \<Rightarrow> string) \<Rightarrow> pyval \<Rightarrow> string" where
  "py_str repr v = (case v of PyStr s \<Rightarrow> s | _ \<Rightarrow> repr v)"

text \<open>Iterating a value: \<open>None\<close> when it is not an \<open>Iterable\<close>; a dict yields its keys.\<close>

fun py_iter :: "pyval \<Rightarrow> pyval list option" where
  "py_iter (PyList xs) = Some xs"
| "py_iter (PyDict kvs) = Some (map (\<lambda>kv. PyStr (fst kv)) kvs)"
| "py_iter (PyStr s) = Some (map (\<lambda>c. PyStr [c]) s)"
| "py_iter v = None"

text \<open>\<open>isinstance(v, dict)\<close>\<close>

fun is_dict :: "pyval \<Rightarrow> bool" where
  "is_dict (PyDict kvs) = True"
| "is_dict v = False"

record chat_request =
  cr_model :: string
  cr_messages :: "(string \<times> string) list"
  cr_temperature :: real
  cr_top_p :: real
  cr_max_tokens :: "int option"
  cr_response_format :: "(string \<times> string) list option"
  cr_user :: "string option"
  cr_seed :: "int option"
  cr_presence_penalty :: real
  cr_frequency_penalty :: real
  cr_metadata :: "(string \<times> pyval) list option"

record chat_choice =
  message_content :: pyval
  finish_reason :: "string option"

record chat_completion_response =
  choices :: "chat_choice list"
  completion_model :: string
  usage_dump :: "pyval option"
  raw_dump :: pyval

record image_request =
  ir_model :: string
  ir_prompt :: string
  ir_size :: string
  ir_quality :: string
  ir_n :: int
  ir_user :: "string option"

record image_item =
  b64_json :: "string option"
  item_revised_prompt :: "string option"

text \<open>\<open>response_model\<close> is \<open>None\<close> when the response has no \<open>model\<close> attribute.\<close>

record images_response =
  data :: "image_item list"
  created :: int
  response_model :: "string option"

record speech_request =
  sr_model :: string
  sr_voice :: string
  sr_input :: string
  sr_response_format :: string
  sr_speed :: real

record video_request =
  vr_prompt :: string
  vr_model :: string
  vr_seconds :: int
  vr_size :: string

record Video =
  job_id :: string
  job_status :: string
  job_model :: string
  job_size :: string
  job_seconds :: string

text \<open>The provider client: each operation answers a request with a value or an exception.\<close>

record provider_client =
  chat_create :: "chat_request \<Rightarrow> error + chat_completion_response"
  images_generate :: "image_request \<Rightarrow> error + images_response"
  speech_create :: "speech_request \<Rightarrow> error + bytes"
  videos_create_and_poll :: "video_request \<Rightarrow> error + Video"
  videos_download_content :: "string \<Rightarrow> string \<Rightarrow> error + bytes"

text \<open>
  What the environment gives to one upload: the clock, the random identifier, and the
  exception raised by \<open>upload_blob\<close>, if any.
\<close>

record upload_env =
  utcnow :: datetime
  uuid4 :: "128 word"
  upload_blob :: "error option"

text \<open>
  \<open>b64decode\<close> is \<open>base64.b64decode\<close>: \<open>None\<close> when it raises \<open>binascii.Error\<close> or
  \<open>ValueError\<close>. \<open>blob_env n\<close> is what upload number \<open>n\<close> of a run meets.
\<close>

record env =
  py_repr :: "pyval \<Rightarrow> string"
  b64decode :: "string \<Rightarrow> bytes option"
  blob_env :: "nat \<Rightarrow> upload_env"

text \<open>The interactions with the outside, in the order they happen.\<close>

datatype event =
    ChatCreate chat_request
  | ImagesGenerate image_request
  | SpeechCreate speech_request
  | VideosCreateAndPoll video_request
  | VideosDownloadContent string string
  | UploadBlob string string bytes
  | LogException string

fun is_upload :: "event \<Rightarrow> bool" where
  "is_upload (UploadBlob n c d) = True"
| "is_upload ev = False"

definition upload_index :: "event list \<Rightarrow> nat" where
  "upload_index tr = length (filter is_upload tr)"

section \<open>The service (openai_service.py)\<close>

definition DEFAULT_CONTENT_TYPE :: string where
  "DEFAULT_CONTENT_TYPE = ''application/octet-stream''"

definition STORAGE_REQUIRED_MSG :: string where
  "STORAGE_REQUIRED_MSG =
     ''Azure Blob Storage uploads are not configured. Set AZURE_STORAGE_CONNECTION_STRING, '' @
     ''AZURE_BLOB_CONTAINER, and AZURE_BLOB_PUBLIC_BASE_URL to enable asset URLs.''"

definition AUDIO_CONTENT_TYPES :: "(string \<times> string) list" where
  "AUDIO_CONTENT_TYPES =
     [(''mp3'', ''audio/mpeg''),
      (''wav'', ''audio/wav''),
      (''flac'', ''audio/flac''),
      (''opus'', ''audio/ogg''),
      (''ogg'', ''audio/ogg''),
      (''aac'', ''audio/aac''),
      (''m4a'', ''audio/mp4'')]"

text \<open>
  The uploader exists exactly when a storage configuration was given; it is identified
  with that configuration.
\<close>

record OpenAIService =
  config :: OpenAIConfig
  client :: provider_client
  blob_uploader :: "AzureBlobStorageConfig option"

definition OpenAIService_init ::
  "OpenAIConfig \<Rightarrow> provider_client \<Rightarrow> AzureBlobStorageConfig option \<Rightarrow> OpenAIService" where
  "OpenAIService_init cfg cl storage = \<lparr>config = cfg, client = cl, blob_uploader = storage\<rparr>"

subsection \<open>AzureBlobUploader.upload\<close>

definition AzureBlobUploader_upload ::
  "AzureBlobStorageConfig \<Rightarrow> upload_env \<Rightarrow> bytes \<Rightarrow> string \<Rightarrow> string \<Rightarrow> string \<Rightarrow>
   event list \<Rightarrow> (error + string) \<times> event list" where
  "AzureBlobUploader_upload cfg ue payload category extension content_type tr =
     (let blob_name = build_blob_name cfg (utcnow ue) (uuid4 ue) category extension;
          tr' = tr @ [UploadBlob blob_name content_type payload]
      in case upload_blob ue of
           Some exn \<Rightarrow> (Inl exn, tr')
         | None \<Rightarrow> (Inr (public_base_url cfg @ ''/'' @ blob_name), tr'))"

subsection \<open>Persistence helpers\<close>

definition persist_media_bytes ::
  "env \<Rightarrow> OpenAIService \<Rightarrow> bytes option \<Rightarrow> string \<Rightarrow> string \<Rightarrow> string option \<Rightarrow>
   event list \<Rightarrow> (error + string option) \<times> event list" where
  "persist_media_bytes e svc payload category extension content_type tr =
     (case payload of
        None \<Rightarrow> (Inr None, tr)
      | Some bs \<Rightarrow>
          if bs = [] then (Inr None, tr)
          else
            (case blob_uploader svc of
               None \<Rightarrow> (Inl (RuntimeError STORAGE_REQUIRED_MSG), tr)
             | Some cfg \<Rightarrow>
                 (let sanitized_extension = lower (str_or (lstrip ''.'' extension) ''bin'')
                  in case AzureBlobUploader_upload cfg (blob_env e (upload_index tr)) bs category
                            sanitized_extension (opt_or content_type DEFAULT_CONTENT_TYPE) tr of
                       (Inr url, tr') \<Rightarrow> (Inr (Some url), tr')
                     | (Inl exn, tr') \<Rightarrow>
                         (Inr None,
                          tr' @ [LogException (''Failed to upload '' @ category @
                                               '' artifact to Azure Blob Storage'')]))))"

definition persist_base64_media ::
  "env \<Rightarrow> OpenAIService \<Rightarrow> string option \<Rightarrow> string \<Rightarrow> string \<Rightarrow> string option \<Rightarrow>
   event list \<Rightarrow> (error + string option) \<times> event list" where
  "persist_base64_media e svc base64_payload category extension content_type tr =
     (case base64_payload of
        None \<Rightarrow> (Inr None, tr)
      | Some s \<Rightarrow>
          if s = [] then (Inr None, tr)
          else
            (case b64decode e s of
               None \<Rightarrow>
                 (Inr None,
                  tr @ [LogException (''Received invalid base64 payload for '' @ category @
                                      '' artifact'')])
             | Some decoded \<Rightarrow>
                 persist_media_bytes e svc (Some decoded) category extension content_type tr))"

definition require_blob_url :: "string option \<Rightarrow> string \<Rightarrow> error + string" where
  "require_blob_url blob_url asset_type =
     (case blob_url of
        Some u \<Rightarrow>
          if u \<noteq> [] then Inr u
          else Inl (RuntimeError (''Unable to produce a publicly accessible '' @ asset_type @
                                  '' asset URL. '' @ STORAGE_REQUIRED_MSG))
      | None \<Rightarrow>
          Inl (RuntimeError (''Unable to produce a publicly accessible '' @ asset_type @
                             '' asset URL. '' @ STORAGE_REQUIRED_MSG)))"

definition audio_content_type :: "string \<Rightarrow> string" where
  "audio_content_type response_format =
     (case map_of AUDIO_CONTENT_TYPES (lower response_format) of
        Some t \<Rightarrow> t
      | None \<Rightarrow> DEFAULT_CONTENT_TYPE)"

definition video_variant_meta :: "string \<Rightarrow> string \<times> string" where
  "video_variant_meta variant =
     (let normalized = lower variant;
          mapping = [(''video'', (''mp4'', ''video/mp4'')),
                     (''thumbnail'', (''png'', ''image/png'')),
                     (''spritesheet'', (''json'', ''application/json''))]
      in case map_of mapping normalized of
           Some m \<Rightarrow> m
         | None \<Rightarrow> (''bin'', DEFAULT_CONTENT_TYPE))"

definition build_messages :: "string \<Rightarrow> string option \<Rightarrow> (string \<times> string) list" where
  "build_messages prompt system_prompt =
     (case system_prompt of
        None \<Rightarrow> []
      | Some sp \<Rightarrow> if sp = [] then [] else [(''system'', sp)]) @ [(''user'', prompt)]"

subsection \<open>\_extract\_text\<close>

text \<open>One pass of the loop body over \<open>chunk\<close>, with \<open>chunks\<close> the list built so far.\<close>

definition extract_step :: "(pyval \<Rightarrow> string) \<Rightarrow> string list \<Rightarrow> pyval \<Rightarrow> string list" where
  "extract_step repr chunks chunk =
     (case chunk of
        PyDict d \<Rightarrow>
          if map_of d ''type'' = Some (PyStr ''text'') \<and>
             (case map_of d ''text'' of Some t \<Rightarrow> truthy t | None \<Rightarrow> False)
          then (case map_of d ''text'' of
                  Some t \<Rightarrow> chunks @ [py_str repr t]
                | None \<Rightarrow> chunks)
          else if map_of d ''type'' = Some (PyStr ''tool_call'')
          then chunks @ [py_str repr chunk]
          else chunks
      | _ \<Rightarrow> chunks @ [py_str repr chunk])"

definition extract_text :: "(pyval \<Rightarrow> string) \<Rightarrow> pyval \<Rightarrow> string" where
  "extract_text repr content =
     (case content of
        PyNone \<Rightarrow> []
      | PyStr s \<Rightarrow> s
      | _ \<Rightarrow>
          (case py_iter content of
             Some xs \<Rightarrow> join [] (foldl (extract_step repr) [] xs)
           | None \<Rightarrow> py_str repr content))"

subsection \<open>Chat\<close>

text \<open>The translation of \<open>response_format\<close> at the head of \<open>chat_completion\<close>.\<close>

definition response_format_param :: "string option \<Rightarrow> (string \<times> string) list option" where
  "response_format_param response_format =
     (case response_format of
        None \<Rightarrow> None
      | Some rf \<Rightarrow>
          if rf = [] then None
          else if lower rf = ''json'' then Some [(''type'', ''json_object'')]
          else Some [(''type'', rf)])"

record chat_result =
  text_out :: string
  finish_reason_out :: "string option"
  model_out :: string
  usage_out :: "pyval option"
  raw_out :: pyval

definition chat_completion ::
  "env \<Rightarrow> OpenAIService \<Rightarrow> string \<Rightarrow> string option \<Rightarrow> string option \<Rightarrow> real \<Rightarrow> real \<Rightarrow>
   int option \<Rightarrow> string option \<Rightarrow> string option \<Rightarrow> real \<Rightarrow> real \<Rightarrow> int option \<Rightarrow>
   (string \<times> pyval) list option \<Rightarrow> event list \<Rightarrow> (error + chat_result) \<times> event list" where
  "chat_completion e svc prompt system_prompt model temperature top_p max_output_tokens user
     response_format presence_penalty frequency_penalty seed metadata tr =
     (let final_model = opt_or model (chat_model (config svc));
          messages = build_messages prompt system_prompt;
          req = \<lparr>cr_model = final_model, cr_messages = messages, cr_temperature = temperature,
                 cr_top_p = top_p, cr_max_tokens = max_output_tokens,
                 cr_response_format = response_format_param response_format,
                 cr_user = user, cr_seed = seed, cr_presence_penalty = presence_penalty,
                 cr_frequency_penalty = frequency_penalty, cr_metadata = metadata\<rparr>;
          tr1 = tr @ [ChatCreate req]
      in case chat_create (client svc) req of
           Inl exn \<Rightarrow> (Inl exn, tr1)
         | Inr completion \<Rightarrow>
             (case choices completion of
                [] \<Rightarrow> (Inl IndexError, tr1)
              | choice # rest \<Rightarrow>
                  (Inr \<lparr>text_out = extract_text (py_repr e) (message_content choice),
                        finish_reason_out = finish_reason choice,
                        model_out = completion_model completion,
                        usage_out = usage_dump completion,
                        raw_out = raw_dump completion\<rparr>, tr1)))"

subsection \<open>Images\<close>

text \<open>The quality check and the size check at the head of \<open>generate_image\<close>.\<close>

definition normalize_quality :: "env \<Rightarrow> string \<Rightarrow> error + string" where
  "normalize_quality e quality =
     (let normalized_quality = lower quality;
          legacy_aliases = [(''standard'', ''medium''), (''hd'', ''high'')];
          normalized_quality = (case map_of legacy_aliases normalized_quality of
                                  Some a \<Rightarrow> a
                                | None \<Rightarrow> normalized_quality);
          allowed_qualities = [''low'', ''medium'', ''high'', ''auto'']
      in if normalized_quality \<notin> set allowed_qualities
         then Inl (ValueError (''quality must be one of '' @ join '', '' (sort allowed_qualities) @
                               '' (received: '' @ py_repr e (PyStr quality) @ '')''))
         else Inr normalized_quality)"

definition normalize_size :: "env \<Rightarrow> string \<Rightarrow> error + string" where
  "normalize_size e size_arg =
     (let normalized_size = lower size_arg;
          allowed_sizes = [''1024x1024'', ''1024x1536'', ''1536x1024'', ''auto'']
      in if normalized_size \<notin> set allowed_sizes
         then Inl (ValueError (''size must be one of '' @ join '', '' (sort allowed_sizes) @
                               '' (received: '' @ py_repr e (PyStr size_arg) @ '')''))
         else Inr normalized_size)"

record image_entry =
  ie_blob_url :: string
  ie_revised_prompt :: "string option"

record image_result =
  img_model :: string
  img_created :: int
  img_images :: "image_entry list"

text \<open>The loop over \<open>response.data\<close>: the first item that raises ends the call.\<close>

fun persist_images ::
  "env \<Rightarrow> OpenAIService \<Rightarrow> image_item list \<Rightarrow> event list \<Rightarrow>
   (error + image_entry list) \<times> event list" where
  "persist_images e svc [] tr = (Inr [], tr)"
| "persist_images e svc (item # items) tr =
     (case persist_base64_media e svc (b64_json item) ''images'' ''png'' (Some ''image/png'') tr of
        (Inl exn, tr1) \<Rightarrow> (Inl exn, tr1)
      | (Inr url, tr1) \<Rightarrow>
          (case require_blob_url url ''image'' of
             Inl exn \<Rightarrow> (Inl exn, tr1)
           | Inr blob_url \<Rightarrow>
               (case persist_images e svc items tr1 of
                  (Inl exn, tr2) \<Rightarrow> (Inl exn, tr2)
                | (Inr images, tr2) \<Rightarrow>
                    (Inr (\<lparr>ie_blob_url = blob_url,
                           ie_revised_prompt = item_revised_prompt item\<rparr> # images), tr2))))"

definition generate_image ::
  "env \<Rightarrow> OpenAIService \<Rightarrow> string \<Rightarrow> string \<Rightarrow> string \<Rightarrow> int \<Rightarrow> string option \<Rightarrow>
   event list \<Rightarrow> (error + image_result) \<times> event list" where
  "generate_image e svc prompt size_arg quality count user tr =
     (let final_model = image_model (config svc)
      in case normalize_quality e quality of
           Inl exn \<Rightarrow> (Inl exn, tr)
         | Inr normalized_quality \<Rightarrow>
             (case normalize_size e size_arg of
                Inl exn \<Rightarrow> (Inl exn, tr)
              | Inr normalized_size \<Rightarrow>
                  (let req = \<lparr>ir_model = final_model, ir_prompt = prompt,
                              ir_size = normalized_size, ir_quality = normalized_quality,
                              ir_n = count, ir_user = user\<rparr>;
                       tr1 = tr @ [ImagesGenerate req]
                   in case images_generate (client svc) req of
                        Inl exn \<Rightarrow> (Inl exn, tr1)
                      | Inr response \<Rightarrow>
                          (case persist_images e svc (data response) tr1 of
                             (Inl exn, tr2) \<Rightarrow> (Inl exn, tr2)
                           | (Inr images, tr2) \<Rightarrow>
                               (Inr \<lparr>img_model = (case response_model response of
                                                     Some m \<Rightarrow> m
                                                   | None \<Rightarrow> final_model),
                                     img_created = created response,
                                     img_images = images\<rparr>, tr2)))))"

subsection \<open>Audio\<close>

record audio_result =
  au_voice :: string
  au_format :: string
  au_byte_length :: nat
  au_blob_url :: string

definition speech_request_of ::
  "OpenAIService \<Rightarrow> string \<Rightarrow> string option \<Rightarrow> string option \<Rightarrow> string \<Rightarrow> real \<Rightarrow>
   speech_request" where
  "speech_request_of svc text model voice response_format speed =
     \<lparr>sr_model = opt_or model (audio_model (config svc)),
      sr_voice = opt_or voice (default_voice (config svc)),
      sr_input = text, sr_response_format = response_format, sr_speed = speed\<rparr>"

definition generate_audio ::
  "env \<Rightarrow> OpenAIService \<Rightarrow> string \<Rightarrow> string option \<Rightarrow> string option \<Rightarrow> string \<Rightarrow> real \<Rightarrow>
   event list \<Rightarrow> (error + audio_result) \<times> event list" where
  "generate_audio e svc text model voice response_format speed tr =
     (let req = speech_request_of svc text model voice response_format speed;
          final_voice = sr_voice req;
          tr1 = tr @ [SpeechCreate req]
      in case speech_create (client svc) req of
           Inl exn \<Rightarrow> (Inl exn, tr1)
         | Inr audio_bytes \<Rightarrow>
             (case persist_media_bytes e svc (Some audio_bytes) ''audio'' response_format
                     (Some (audio_content_type response_format)) tr1 of
                (Inl exn, tr2) \<Rightarrow> (Inl exn, tr2)
              | (Inr url, tr2) \<Rightarrow>
                  (case require_blob_url url ''audio'' of
                     Inl exn \<Rightarrow> (Inl exn, tr2)
                   | Inr blob_url \<Rightarrow>
                       (Inr \<lparr>au_voice = final_voice, au_format = response_format,
                             au_byte_length = length audio_bytes,
                             au_blob_url = blob_url\<rparr>, tr2))))"

subsection \<open>Video\<close>

record video_result =
  vi_video_id :: string
  vi_status :: string
  vi_model :: string
  vi_size :: string
  vi_seconds :: string
  vi_variant :: string
  vi_byte_length :: nat
  vi_blob_url :: string

definition video_request_of ::
  "OpenAIService \<Rightarrow> string \<Rightarrow> string option \<Rightarrow> int \<Rightarrow> string \<Rightarrow> video_request" where
  "video_request_of svc prompt model seconds size_arg =
     \<lparr>vr_prompt = prompt, vr_model = opt_or model (video_model (config svc)),
      vr_seconds = seconds, vr_size = size_arg\<rparr>"

definition generate_video ::
  "env \<Rightarrow> OpenAIService \<Rightarrow> string \<Rightarrow> string option \<Rightarrow> int \<Rightarrow> string \<Rightarrow> string \<Rightarrow>
   event list \<Rightarrow> (error + video_result) \<times> event list" where
  "generate_video e svc prompt model seconds size_arg variant tr =
     (if provider (config svc) = Azure
      then (Inl (RuntimeError ''Azure OpenAI does not currently support video generation''), tr)
      else
        (let req = video_request_of svc prompt model seconds size_arg;
             tr1 = tr @ [VideosCreateAndPoll req]
         in case videos_create_and_poll (client svc) req of
              Inl exn \<Rightarrow> (Inl exn, tr1)
            | Inr video_job \<Rightarrow>
                if job_status video_job \<noteq> ''completed''
                then (Inl (RuntimeError (''Video job '' @ job_id video_job @
                                         '' did not complete successfully (status='' @
                                         job_status video_job @ '')'')), tr1)
                else
                  (let tr2 = tr1 @ [VideosDownloadContent (job_id video_job) variant]
                   in case videos_download_content (client svc) (job_id video_job) variant of
                        Inl exn \<Rightarrow> (Inl exn, tr2)
                      | Inr video_bytes \<Rightarrow>
                          (case video_variant_meta variant of
                             (extension, content_type) \<Rightarrow>
                               (case persist_media_bytes e svc (Some video_bytes) ''videos''
                                       extension (Some content_type) tr2 of
                                  (Inl exn, tr3) \<Rightarrow> (Inl exn, tr3)
                                | (Inr url, tr3) \<Rightarrow>
                                    (case require_blob_url url ''video'' of
                                       Inl exn \<Rightarrow> (Inl exn, tr3)
                                     | Inr blob_url \<Rightarrow>
                                         (Inr \<lparr>vi_video_id = job_id video_job,
                                               vi_status = job_status video_job,
                                               vi_model = job_model video_job,
                                               vi_size = job_size video_job,
                                               vi_seconds = job_seconds video_job,
                                               vi_variant = variant,
                                               vi_byte_length = length video_bytes,
                                               vi_blob_url = blob_url\<rparr>, tr3)))))))"

section \<open>The video tool (app.py)\<close>

definition tool_generate_video ::
  "env \<Rightarrow> OpenAIService \<Rightarrow> string \<Rightarrow> string option \<Rightarrow> int \<Rightarrow> string \<Rightarrow> string \<Rightarrow>
   event list \<Rightarrow> (error + video_result) \<times> event list" where
  "tool_generate_video e svc prompt model seconds size_arg variant tr =
     (let allowed_seconds = [4, 8, 12]
      in if seconds \<notin> set allowed_seconds
         then (Inl (ValueError ''seconds must be one of 4, 8, or 12''), tr)
         else
           (let allowed_variants = [''video'', ''thumbnail'', ''spritesheet'']
            in if variant \<notin> set allowed_variants
               then (Inl (ValueError ''variant must be video, thumbnail, or spritesheet''), tr)
               else generate_video e svc prompt model seconds size_arg variant tr))"

section \<open>The specification's wording, for comparison\<close>

text \<open>
  The definitions of this section follow the sentences of the specification, not the
  code; each is compared with the code's function below.
\<close>

text \<open>Path: optional prefix, category root and file name joined by \<open>/\<close>, empty segments omitted.\<close>

definition spec_blob_path :: "string option \<Rightarrow> string \<Rightarrow> string \<Rightarrow> string" where
  "spec_blob_path pre category_root filename =
     (case pre of None \<Rightarrow> [] | Some p \<Rightarrow> if p = [] then [] else p @ ''/'') @
     (if category_root = [] then [] else category_root @ ''/'') @ filename"

definition is_digit :: "char \<Rightarrow> bool" where
  "is_digit c \<longleftrightarrow> c \<in> set ''0123456789''"

definition is_lower_hex :: "char \<Rightarrow> bool" where
  "is_lower_hex c \<longleftrightarrow> c \<in> set ''0123456789abcdef''"

text \<open>\<open>yyyyMMddTHHmmss\<close>: eight digits, a \<open>T\<close>, six digits.\<close>

definition spec_timestamp_shape :: "string \<Rightarrow> bool" where
  "spec_timestamp_shape ts \<longleftrightarrow>
     length ts = 15 \<and> list_all is_digit (take 8 ts) \<and> ts ! 8 = CHR ''T'' \<and>
     list_all is_digit (drop 9 ts)"

definition spec_hex32_shape :: "string \<Rightarrow> bool" where
  "spec_hex32_shape h \<longleftrightarrow> length h = 32 \<and> list_all is_lower_hex h"

text \<open>
  Reading a rendered number back: the value of a digit, and of a string of decimal or
  hexadecimal digits.
\<close>

definition digit_value :: "char \<Rightarrow> nat" where
  "digit_value c =
     (case map_of (zip ''0123456789abcdef'' [0, 1, 2, 3, 4, 5, 6, 7, 8, 9, 10, 11, 12, 13, 14, 15])
             c of
        Some d \<Rightarrow> d
      | None \<Rightarrow> 0)"

definition decimal_value :: "string \<Rightarrow> nat" where
  "decimal_value s = foldl (\<lambda>a c. 10 * a + digit_value c) 0 s"

definition hex_value :: "string \<Rightarrow> nat" where
  "hex_value s = foldl (\<lambda>a c. 16 * a + digit_value c) 0 s"

text \<open>
  The timestamp of a time \<open>t\<close>: of shape \<open>yyyyMMddTHHmmss\<close>, where \<open>yyyy\<close> reads as the
  year of \<open>t\<close>, \<open>MM\<close> as its month, \<open>dd\<close> as its day, \<open>HH\<close> as its hour, \<open>mm\<close> as its
  minute and \<open>ss\<close> as its second.
\<close>

definition spec_timestamp_of :: "datetime \<Rightarrow> string \<Rightarrow> bool" where
  "spec_timestamp_of t ts \<longleftrightarrow>
     spec_timestamp_shape ts \<and>
     decimal_value (take 4 ts) = year t \<and>
     decimal_value (take 2 (drop 4 ts)) = month t \<and>
     decimal_value (take 2 (drop 6 ts)) = day t \<and>
     decimal_value (take 2 (drop 9 ts)) = hour t \<and>
     decimal_value (take 2 (drop 11 ts)) = minute t \<and>
     decimal_value (take 2 (drop 13 ts)) = second t"

text \<open>The hexadecimal form of a 128-bit value: 32 lower-case digits that read as the value.\<close>

definition spec_hex32_of :: "128 word \<Rightarrow> string \<Rightarrow> bool" where
  "spec_hex32_of u h \<longleftrightarrow> spec_hex32_shape h \<and> hex_value h = unat u"

text \<open>Category roots: the five known names, and an unknown category as its literal name.\<close>

definition spec_root_for_category :: "AzureBlobStorageConfig \<Rightarrow> string \<Rightarrow> string" where
  "spec_root_for_category cfg c =
     (if c = ''images'' \<or> c = ''image'' then image_root cfg
      else if c = ''audio'' then audio_root cfg
      else if c = ''videos'' \<or> c = ''video'' then video_root cfg
      else c)"

text \<open>
  Chat \<open>response_format\<close>: the string \<open>json\<close> gives the structured-output directive, any
  other non-empty string is passed through, empty or absent gives no constraint.
\<close>

definition spec_response_format :: "string option \<Rightarrow> (string \<times> string) list option" where
  "spec_response_format rf =
     (case rf of
        None \<Rightarrow> None
      | Some s \<Rightarrow>
          if s = [] then None
          else if s = ''json'' then Some [(''type'', ''json_object'')]
          else Some [(''type'', s)])"

text \<open>
  Text extraction: of a sequence of chunks, those marked as text give their text, those
  marked as tool calls their textual representation, every other chunk nothing.
\<close>

definition spec_chunk_text :: "(pyval \<Rightarrow> string) \<Rightarrow> pyval \<Rightarrow> string" where
  "spec_chunk_text repr chunk =
     (case chunk of
        PyDict d \<Rightarrow>
          if map_of d ''type'' = Some (PyStr ''text'')
          then (case map_of d ''text'' of
                  Some t \<Rightarrow> if truthy t then py_str repr t else []
                | None \<Rightarrow> [])
          else if map_of d ''type'' = Some (PyStr ''tool_call'') then py_str repr chunk
          else []
      | _ \<Rightarrow> [])"

definition spec_extract_text :: "(pyval \<Rightarrow> string) \<Rightarrow> pyval \<Rightarrow> string" where
  "spec_extract_text repr content =
     (case content of
        PyNone \<Rightarrow> []
      | PyStr s \<Rightarrow> s
      | PyList xs \<Rightarrow> concat (map (spec_chunk_text repr) xs)
      | _ \<Rightarrow> py_str repr content)"

section \<open>The standard library's base64 decoder\<close>

text \<open>
  \<open>base64.b64decode(s)\<close> on a string, with its default \<open>validate=False\<close>, as
  \<open>binascii.a2b_base64\<close> computes it: a string with a non-ASCII character raises
  \<open>ValueError\<close>; characters outside the alphabet are skipped; each group of four
  alphabet characters gives three bytes; padding ends the input once a group of two or
  three characters is completed by it; input that ends inside a group raises
  \<open>binascii.Error\<close>. \<open>None\<close> stands for either exception.
\<close>

definition b64_index :: "char \<Rightarrow> nat option" where
  "b64_index c =
     map_of (zip ''ABCDEFGHIJKLMNOPQRSTUVWXYZabcdefghijklmnopqrstuvwxyz0123456789+/''
               [0 ..< 64]) c"

fun a2b_base64 :: "nat \<Rightarrow> nat \<Rightarrow> nat \<Rightarrow> bytes \<Rightarrow> string \<Rightarrow> bytes option" where
  "a2b_base64 quad_pos leftchar pads out [] = (if quad_pos \<noteq> 0 then None else Some out)"
| "a2b_base64 quad_pos leftchar pads out (c # cs) =
     (if c = CHR ''='' then
        (if 2 \<le> quad_pos \<and> 4 \<le> quad_pos + (pads + 1) then Some out
         else a2b_base64 quad_pos leftchar (if 2 \<le> quad_pos then pads + 1 else pads) out cs)
      else
        (case b64_index c of
           None \<Rightarrow> a2b_base64 quad_pos leftchar pads out cs
         | Some v \<Rightarrow>
             if quad_pos = 0 then a2b_base64 1 v 0 out cs
             else if quad_pos = 1
             then a2b_base64 2 (v mod 16) 0 (out @ [char_of (leftchar * 4 + v div 16)]) cs
             else if quad_pos = 2
             then a2b_base64 3 (v mod 4) 0 (out @ [char_of (leftchar * 16 + v div 4)]) cs
             else a2b_base64 0 0 0 (out @ [char_of (leftchar * 64 + v)]) cs))"

definition py_b64decode :: "string \<Rightarrow> bytes option" where
  "py_b64decode s =
     (if list_ex (\<lambda>c. 128 \<le> (of_char c :: nat)) s then None else a2b_base64 0 0 0 [] s)"

section \<open>Concrete inputs for the worked examples\<close>

definition example_storage :: AzureBlobStorageConfig where
  "example_storage =
     \<lparr>connection_string = ''UseDevelopmentStorage=true'', container = ''media'',
      public_base_url = ''https://cdn.example.com'', path_prefix = Some ''gw'',
      image_root = ''img'', audio_root = ''snd'', video_root = ''vid''\<rparr>"

definition example_config :: OpenAIConfig where
  "example_config =
     \<lparr>provider = OpenAI, api_key = ''sk-test'', base_url = None, organization = None,
      azure_endpoint = None, azure_api_version = None, azure_ad_token = None,
      chat_model = ''gpt-4.1-mini'', image_model = ''gpt-image-1'',
      audio_model = ''gpt-4o-mini-tts'', default_voice = ''alloy'', video_model = ''sora-2''\<rparr>"

definition example_client :: provider_client where
  "example_client =
     \<lparr>chat_create = (\<lambda>r. Inr \<lparr>choices = [\<lparr>message_content = PyStr ''hello'',
                                              finish_reason = Some ''stop''\<rparr>],
                                  completion_model = cr_model r,
                                  usage_dump = None, raw_dump = PyNone\<rparr>),
      images_generate = (\<lambda>r. Inr \<lparr>data = [\<lparr>b64_json = Some ''aGk='',
                                                item_revised_prompt = None\<rparr>],
                                      created = 0, response_model = None\<rparr>),
      speech_create = (\<lambda>r. Inr ''RIFF''),
      videos_create_and_poll = (\<lambda>r. Inr \<lparr>job_id = ''video_1'', job_status = ''completed'',
                                             job_model = vr_model r, job_size = vr_size r,
                                             job_seconds = ''8''\<rparr>),
      videos_download_content = (\<lambda>i v. Inr ''PNG'')\<rparr>"

definition example_time :: datetime where
  "example_time = \<lparr>year = 2025, month = 3, day = 9, hour = 7, minute = 5, second = 0\<rparr>"

definition example_env :: env where
  "example_env =
     \<lparr>py_repr = (\<lambda>v. ''<repr>''),
      b64decode = py_b64decode,
      blob_env = (\<lambda>n. \<lparr>utcnow = example_time, uuid4 = 255, upload_blob = None\<rparr>)\<rparr>"

definition example_service :: OpenAIService where
  "example_service = OpenAIService_init example_config example_client (Some example_storage)"

definition example_service_no_storage :: OpenAIService where
  "example_service_no_storage = OpenAIService_init example_config example_client None"

definition example_service_azure :: OpenAIService where
  "example_service_azure =
     OpenAIService_init (example_config\<lparr>provider := Azure\<rparr>) example_client
       (Some example_storage)"







section \<open>Rendering of numbers, timestamps and identifiers\<close>

lemma length_hex_fixed: "length (hex_fixed k n) = k"
  by (induction k arbitrary: n) simp_all

lemma hex_digit_table: "list_all (\<lambda>d. is_lower_hex (digit_char d)) [0..<16]"
  by code_simp

lemma dec_digit_table: "list_all (\<lambda>d. is_digit (digit_char d)) [0..<10]"
  by code_simp

lemma digit_char_mod: "digit_char (d mod 16) = digit_char d"
  by (simp add: digit_char_def)

lemma digit_char_lower_hex: "is_lower_hex (digit_char d)"
proof -
  have "d mod 16 \<in> set [0..<16]" by simp
  with hex_digit_table have "is_lower_hex (digit_char (d mod 16))"
    unfolding list_all_iff by blast
  then show ?thesis by (simp only: digit_char_mod)
qed

lemma digit_char_decimal: "d < 10 \<Longrightarrow> is_digit (digit_char d)"
proof -
  assume "d < 10"
  then have "d \<in> set [0..<10]" by simp
  with dec_digit_table show ?thesis
    unfolding list_all_iff by blast
qed

lemma hex_fixed_lower_hex: "list_all is_lower_hex (hex_fixed k n)"
  by (induction k arbitrary: n) (simp_all add: digit_char_lower_hex)

lemma uuid_hex_shape: "spec_hex32_shape (uuid_hex u)"
  by (simp add: spec_hex32_shape_def uuid_hex_def length_hex_fixed hex_fixed_lower_hex)

lemma str_nat_digits: "list_all is_digit (str_nat n)"
proof (induction n rule: str_nat.induct)
  case (1 n)
  show ?case
  proof (cases "n < 10")
    case True
    then show ?thesis by (subst str_nat.simps) (simp add: digit_char_decimal)
  next
    case False
    with 1 show ?thesis by (subst str_nat.simps) (simp add: digit_char_decimal)
  qed
qed

lemma length_str_nat_le: "0 < k \<Longrightarrow> n < 10 ^ k \<Longrightarrow> length (str_nat n) \<le> k"
proof (induction k arbitrary: n)
  case 0
  then show ?case by simp
next
  case (Suc k)
  show ?case
  proof (cases "n < 10")
    case True
    then show ?thesis by (subst str_nat.simps) simp
  next
    case False
    then have k: "0 < k" using Suc.prems by (cases k) auto
    have "n div 10 < 10 ^ k" using Suc.prems by (simp add: less_mult_imp_div_less mult.commute)
    then have "length (str_nat (n div 10)) \<le> k" using Suc.IH k by simp
    with False show ?thesis by (subst str_nat.simps) simp
  qed
qed

lemma length_zfill: "length s \<le> w \<Longrightarrow> length (zfill w s) = w"
  by (simp add: zfill_def)

lemma is_digit_zero: "is_digit (CHR ''0'')"
  by (simp add: is_digit_def)

lemma zfill_digits: "list_all is_digit s \<Longrightarrow> list_all is_digit (zfill w s)"
  by (auto simp: zfill_def list_all_iff is_digit_zero)

lemma field_shape:
  "0 < k \<Longrightarrow> n < 10 ^ k \<Longrightarrow>
   length (zfill k (str_nat n)) = k \<and> list_all is_digit (zfill k (str_nat n))"
  by (simp add: length_zfill length_str_nat_le zfill_digits str_nat_digits)

lemma timestamp_parts_shape:
  assumes "length p = 8" "list_all is_digit p" "list_all is_digit q" "length q = 6"
  shows "spec_timestamp_shape (p @ ''T'' @ q)"
proof -
  have l: "length (p @ ''T'' @ q) = 15" using assms by simp
  have t: "take 8 (p @ ''T'' @ q) = p" using assms by simp
  have n: "(p @ ''T'' @ q) ! 8 = CHR ''T''" using assms by (simp add: nth_append)
  have d: "drop 9 (p @ ''T'' @ q) = q" using assms by simp
  show ?thesis
    unfolding spec_timestamp_shape_def using l t n d assms by presburger
qed

lemma strftime_shape: "valid_datetime t \<Longrightarrow> spec_timestamp_shape (strftime t)"
proof -
  assume v: "valid_datetime t"
  have y: "length (zfill 4 (str_nat (year t))) = 4 \<and> list_all is_digit (zfill 4 (str_nat (year t)))"
    using v by (intro field_shape) (simp_all add: valid_datetime_def)
  have mo: "length (zfill 2 (str_nat (month t))) = 2 \<and> list_all is_digit (zfill 2 (str_nat (month t)))"
    using v by (intro field_shape) (simp_all add: valid_datetime_def)
  have d: "length (zfill 2 (str_nat (day t))) = 2 \<and> list_all is_digit (zfill 2 (str_nat (day t)))"
    using v by (intro field_shape) (simp_all add: valid_datetime_def)
  have h: "length (zfill 2 (str_nat (hour t))) = 2 \<and> list_all is_digit (zfill 2 (str_nat (hour t)))"
    using v by (intro field_shape) (simp_all add: valid_datetime_def)
  have mi: "length (zfill 2 (str_nat (minute t))) = 2 \<and> list_all is_digit (zfill 2 (str_nat (minute t)))"
    using v by (intro field_shape) (simp_all add: valid_datetime_def)
  have s: "length (zfill 2 (str_nat (second t))) = 2 \<and> list_all is_digit (zfill 2 (str_nat (second t)))"
    using v by (intro field_shape) (simp_all add: valid_datetime_def)
  define p where "p = zfill 4 (str_nat (year t)) @ zfill 2 (str_nat (month t)) @ zfill 2 (str_nat (day t))"
  define q where "q = zfill 2 (str_nat (hour t)) @ zfill 2 (str_nat (minute t)) @ zfill 2 (str_nat (second t))"
  have lp: "length p = 8" and dp: "list_all is_digit p"
    using y mo d by (simp_all add: p_def)
  have lq: "length q = 6" and dq: "list_all is_digit q"
    using h mi s by (simp_all add: q_def)
  have "strftime t = p @ ''T'' @ q"
    by (simp add: strftime_def p_def q_def)
  then show ?thesis
    using timestamp_parts_shape [OF lp dp dq lq] by simp
qed

lemma digit_value_table: "list_all (\<lambda>d. digit_value (digit_char d) = d) [0..<16]"
  by code_simp

lemma digit_value_digit_char: "d < 16 \<Longrightarrow> digit_value (digit_char d) = d"
proof -
  assume "d < 16"
  then have "d \<in> set [0..<16]" by simp
  with digit_value_table show ?thesis
    unfolding list_all_iff by blast
qed

lemma digit_value_zero: "digit_value (CHR ''0'') = 0"
  by (simp add: digit_value_def)

lemma decimal_value_snoc: "decimal_value (xs @ [c]) = 10 * decimal_value xs + digit_value c"
  by (simp add: decimal_value_def)

lemma decimal_value_single: "decimal_value [c] = digit_value c"
  by (simp add: decimal_value_def)

lemma decimal_value_str_nat: "decimal_value (str_nat n) = n"
proof (induction n rule: str_nat.induct)
  case (1 n)
  show ?case
  proof (cases "n < 10")
    case True
    then show ?thesis
      by (subst str_nat.simps) (simp add: decimal_value_single digit_value_digit_char)
  next
    case False
    then have "decimal_value (str_nat (n div 10)) = n div 10" by (rule 1)
    moreover have "digit_value (digit_char (n mod 10)) = n mod 10"
      by (rule digit_value_digit_char) simp
    ultimately show ?thesis
      using False by (subst str_nat.simps) (simp add: decimal_value_snoc)
  qed
qed

lemma decimal_value_zeros:
  "decimal_value (replicate k (CHR ''0'') @ s) = decimal_value s"
proof -
  have "foldl (\<lambda>a c. 10 * a + digit_value c) 0 (replicate k (CHR ''0'')) = 0"
    by (induction k) (simp_all add: digit_value_zero)
  then show ?thesis by (simp add: decimal_value_def)
qed

lemma decimal_value_field: "decimal_value (zfill k (str_nat n)) = n"
  by (simp add: zfill_def decimal_value_zeros decimal_value_str_nat)

lemma hex_value_snoc: "hex_value (xs @ [c]) = 16 * hex_value xs + digit_value c"
  by (simp add: hex_value_def)

lemma hex_value_hex_fixed: "hex_value (hex_fixed k n) = n mod 16 ^ k"
proof (induction k arbitrary: n)
  case 0
  show ?case by (simp add: hex_value_def)
next
  case (Suc k)
  have "hex_value (hex_fixed (Suc k) n) = 16 * (n div 16 mod 16 ^ k) + n mod 16"
    by (simp add: hex_value_snoc Suc.IH digit_value_digit_char)
  also have "\<dots> = n mod (16 * 16 ^ k)"
    by (simp add: mod_mult2_eq)
  finally show ?case by simp
qed

lemma uuid_hex_value: "hex_value (uuid_hex u) = unat u"
proof -
  have "unat u < 2 ^ 128" using unsigned_less [of u] by simp
  then have "unat u < 16 ^ 32" by simp
  then show ?thesis by (simp add: uuid_hex_def hex_value_hex_fixed)
qed

lemma uuid_hex_reads: "spec_hex32_of u (uuid_hex u)"
  by (simp add: spec_hex32_of_def uuid_hex_shape uuid_hex_value)

lemma timestamp_parts:
  assumes "length a = 4" "length b = 2" "length c = 2" "length d = 2" "length e = 2"
    "length f = 2"
  shows "take 4 (a @ b @ c @ ''T'' @ d @ e @ f) = a"
    and "take 2 (drop 4 (a @ b @ c @ ''T'' @ d @ e @ f)) = b"
    and "take 2 (drop 6 (a @ b @ c @ ''T'' @ d @ e @ f)) = c"
    and "take 2 (drop 9 (a @ b @ c @ ''T'' @ d @ e @ f)) = d"
    and "take 2 (drop 11 (a @ b @ c @ ''T'' @ d @ e @ f)) = e"
    and "take 2 (drop 13 (a @ b @ c @ ''T'' @ d @ e @ f)) = f"
  using assms by simp_all

lemma strftime_reads: "valid_datetime t \<Longrightarrow> spec_timestamp_of t (strftime t)"
proof -
  assume v: "valid_datetime t"
  have y: "length (zfill 4 (str_nat (year t))) = 4"
    using v by (intro field_shape [THEN conjunct1]) (simp_all add: valid_datetime_def)
  have mo: "length (zfill 2 (str_nat (month t))) = 2"
    using v by (intro field_shape [THEN conjunct1]) (simp_all add: valid_datetime_def)
  have d: "length (zfill 2 (str_nat (day t))) = 2"
    using v by (intro field_shape [THEN conjunct1]) (simp_all add: valid_datetime_def)
  have h: "length (zfill 2 (str_nat (hour t))) = 2"
    using v by (intro field_shape [THEN conjunct1]) (simp_all add: valid_datetime_def)
  have mi: "length (zfill 2 (str_nat (minute t))) = 2"
    using v by (intro field_shape [THEN conjunct1]) (simp_all add: valid_datetime_def)
  have s: "length (zfill 2 (str_nat (second t))) = 2"
    using v by (intro field_shape [THEN conjunct1]) (simp_all add: valid_datetime_def)
  note parts = timestamp_parts [OF y mo d h mi s]
  show ?thesis
    unfolding spec_timestamp_of_def
    using strftime_shape [OF v]
    by (simp only: strftime_def parts decimal_value_field simp_thms)
qed

section \<open>Blob names and URLs\<close>

lemma join_slash_segments:
  "filename \<noteq> [] \<Longrightarrow>
   join ''/'' (filter (\<lambda>segment. segment \<noteq> []) [opt_or pre [], r, filename]) =
   spec_blob_path pre r filename"
  by (cases pre) (auto simp: spec_blob_path_def opt_or_def str_or_def)

lemma build_blob_name_spec:
  "build_blob_name cfg now u c e =
   spec_blob_path (path_prefix cfg) (root_for_category cfg c)
     (strftime now @ ''-'' @ uuid_hex u @ ''.'' @ e)"
proof -
  have ne: "strftime now @ ''-'' @ uuid_hex u @ ''.'' @ e \<noteq> []" by simp
  show ?thesis
    unfolding build_blob_name_def Let_def
    using join_slash_segments [OF ne] by simp
qed

lemma upload_result:
  "AzureBlobUploader_upload cfg ue payload c e ct tr =
   (case upload_blob ue of
      Some exn \<Rightarrow> Inl exn
    | None \<Rightarrow> Inr (public_base_url cfg @ ''/'' @ build_blob_name cfg (utcnow ue) (uuid4 ue) c e),
    tr @ [UploadBlob (build_blob_name cfg (utcnow ue) (uuid4 ue) c e) ct payload])"
  by (simp add: AzureBlobUploader_upload_def Let_def split: option.splits)

text \<open>
  Claim C1. The blob name built for a category \<open>c\<close> and an extension \<open>e\<close> is the
  configured prefix (when present and not empty), the root resolved for \<open>c\<close> and the file
  name \<open>timestamp-hex.e\<close>, joined by \<open>/\<close> with empty segments left out. The timestamp
  is the time of the clock written as \<open>yyyyMMddTHHmmss\<close>: its digits read back as the
  year, month, day, hour, minute and second of that time. The identifier is 32 lower-case
  hexadecimal characters that read back as the 128-bit value drawn. When the upload
  succeeds, the URL returned is the public base URL, a \<open>/\<close> and that name.
\<close>

theorem blob_path_format:
  assumes "valid_datetime (utcnow ue)"
  shows "build_blob_name cfg (utcnow ue) (uuid4 ue) c e =
           spec_blob_path (path_prefix cfg) (root_for_category cfg c)
             (strftime (utcnow ue) @ ''-'' @ uuid_hex (uuid4 ue) @ ''.'' @ e) \<and>
         spec_timestamp_of (utcnow ue) (strftime (utcnow ue)) \<and>
         spec_hex32_of (uuid4 ue) (uuid_hex (uuid4 ue)) \<and>
         (upload_blob ue = None \<longrightarrow>
            AzureBlobUploader_upload cfg ue payload c e ct tr =
              (Inr (public_base_url cfg @ ''/'' @
                    build_blob_name cfg (utcnow ue) (uuid4 ue) c e),
               tr @ [UploadBlob (build_blob_name cfg (utcnow ue) (uuid4 ue) c e) ct payload]))"
proof (intro conjI impI)
  show "build_blob_name cfg (utcnow ue) (uuid4 ue) c e =
          spec_blob_path (path_prefix cfg) (root_for_category cfg c)
            (strftime (utcnow ue) @ ''-'' @ uuid_hex (uuid4 ue) @ ''.'' @ e)"
    by (rule build_blob_name_spec)
  show "spec_timestamp_of (utcnow ue) (strftime (utcnow ue))"
    using assms by (rule strftime_reads)
  show "spec_hex32_of (uuid4 ue) (uuid_hex (uuid4 ue))"
    by (rule uuid_hex_reads)
next
  assume "upload_blob ue = None"
  then show "AzureBlobUploader_upload cfg ue payload c e ct tr =
      (Inr (public_base_url cfg @ ''/'' @ build_blob_name cfg (utcnow ue) (uuid4 ue) c e),
       tr @ [UploadBlob (build_blob_name cfg (utcnow ue) (uuid4 ue) c e) ct payload])"
    by (simp add: upload_result)
qed

theorem blob_path_format_witness:
  "valid_datetime (utcnow (blob_env example_env 0)) \<and>
   upload_blob (blob_env example_env 0) = None \<and>
   spec_timestamp_of example_time ''20250309T070500'' \<and>
   spec_hex32_of 255 ''000000000000000000000000000000ff'' \<and>
   build_blob_name example_storage (utcnow (blob_env example_env 0))
     (uuid4 (blob_env example_env 0)) ''images'' ''png'' =
     ''gw/img/20250309T070500-000000000000000000000000000000ff.png'' \<and>
   fst (AzureBlobUploader_upload example_storage (blob_env example_env 0) ''data'' ''images''
          ''png'' ''image/png'' []) =
     Inr ''https://cdn.example.com/gw/img/20250309T070500-000000000000000000000000000000ff.png''"
proof -
  let ?ue = "blob_env example_env 0"
  have h: "valid_datetime (utcnow ?ue)"
    by (simp add: valid_datetime_def example_env_def example_time_def)
  have ok: "upload_blob ?ue = None" by (simp add: example_env_def)
  have r: "root_for_category example_storage ''images'' = ''img''" by code_simp
  have ts: "strftime (utcnow ?ue) = ''20250309T070500''" by code_simp
  have hx: "uuid_hex (uuid4 ?ue) = ''000000000000000000000000000000ff''" by code_simp
  note inst = blob_path_format [OF h, of example_storage "''images''" "''png''" "''data''"
      "''image/png''" "[]"]
  have pp: "path_prefix example_storage = Some ''gw''"
    and pb: "public_base_url example_storage = ''https://cdn.example.com''"
    by (simp_all add: example_storage_def)
  have "build_blob_name example_storage (utcnow ?ue) (uuid4 ?ue) ''images'' ''png'' =
      spec_blob_path (path_prefix example_storage) (root_for_category example_storage ''images'')
        (strftime (utcnow ?ue) @ ''-'' @ uuid_hex (uuid4 ?ue) @ ''.'' @ ''png'')"
    by (rule inst [THEN conjunct1])
  then have n: "build_blob_name example_storage (utcnow ?ue) (uuid4 ?ue) ''images'' ''png'' =
      ''gw/img/20250309T070500-000000000000000000000000000000ff.png''"
    by (simp add: r ts hx pp spec_blob_path_def)
  from inst ok have "AzureBlobUploader_upload example_storage ?ue ''data'' ''images'' ''png''
      ''image/png'' [] =
      (Inr (public_base_url example_storage @ ''/'' @
            build_blob_name example_storage (utcnow ?ue) (uuid4 ?ue) ''images'' ''png''),
       [] @ [UploadBlob (build_blob_name example_storage (utcnow ?ue) (uuid4 ?ue) ''images''
                           ''png'') ''image/png'' ''data''])"
    by blast
  then have u: "fst (AzureBlobUploader_upload example_storage ?ue ''data'' ''images'' ''png''
      ''image/png'' []) =
      Inr ''https://cdn.example.com/gw/img/20250309T070500-000000000000000000000000000000ff.png''"
    by (simp add: n pb)
  have "spec_timestamp_of (utcnow ?ue) (strftime (utcnow ?ue))"
    by (rule inst [THEN conjunct2, THEN conjunct1])
  then have rt: "spec_timestamp_of example_time ''20250309T070500''"
    by (simp add: ts) (simp add: example_env_def)
  have "spec_hex32_of (uuid4 ?ue) (uuid_hex (uuid4 ?ue))"
    by (rule inst [THEN conjunct2, THEN conjunct2, THEN conjunct1])
  then have rh: "spec_hex32_of 255 ''000000000000000000000000000000ff''"
    by (simp add: hx) (simp add: example_env_def)
  from h ok rt rh n u show ?thesis by blast
qed

section \<open>Category roots\<close>

lemma strip_unchanged:
  assumes "s \<noteq> []" "hd s \<notin> set cs" "last s \<notin> set cs"
  shows "strip cs s = s"
proof -
  have a: "dropWhile (\<lambda>c. c \<in> set cs) s = s"
    using assms by (cases s) simp_all
  have "rev s \<noteq> []" "hd (rev s) \<notin> set cs"
    using assms by (simp_all add: hd_rev)
  then have b: "dropWhile (\<lambda>c. c \<in> set cs) (rev s) = rev s"
    by (cases "rev s") simp_all
  show ?thesis by (simp add: strip_def a b)
qed

lemma root_known:
  "root_for_category cfg ''images'' = image_root cfg"
  "root_for_category cfg ''image'' = image_root cfg"
  "root_for_category cfg ''audio'' = audio_root cfg"
  "root_for_category cfg ''videos'' = video_root cfg"
  "root_for_category cfg ''video'' = video_root cfg"
  by (simp_all add: root_for_category_def strip_def str_or_def)

lemma strip_media: "strip ''/'' ''media'' = ''media''"
  by (simp add: strip_def)

lemma strip_empty: "strip cs [] = []"
  by (simp add: strip_def)

lemma normalized_category:
  "str_or (strip ''/'' (str_or c ''media'')) ''media'' =
   (if strip ''/'' c = [] then ''media'' else strip ''/'' c)"
proof (cases "c = []")
  case True
  then show ?thesis by (simp add: str_or_def strip_media strip_empty)
next
  case False
  then show ?thesis by (simp add: str_or_def)
qed

lemma root_stripped:
  assumes "strip ''/'' c \<notin> set [''images'', ''image'', ''audio'', ''videos'', ''video'']"
  shows "root_for_category cfg c = (if strip ''/'' c = [] then ''media'' else strip ''/'' c)"
proof (cases "strip ''/'' c = []")
  case True
  then show ?thesis
    unfolding root_for_category_def normalized_category by simp
next
  case False
  then show ?thesis
    unfolding root_for_category_def normalized_category using assms by simp
qed

text \<open>
  Claim C7, as amended. \<open>image\<close> and \<open>images\<close> resolve to the configured image root,
  \<open>video\<close> and \<open>videos\<close> to the video root, \<open>audio\<close> to the audio root. Any category
  whose name, once its leading and trailing \<open>/\<close> are removed, is not one of these five
  resolves to that stripped name, or to \<open>media\<close> when nothing remains; so an unknown
  category that is not empty and neither starts nor ends with \<open>/\<close> resolves to its own
  literal name. Blob names built under \<open>image\<close> and under \<open>images\<close> are the same.
\<close>

theorem root_for_category_resolution:
  "root_for_category cfg ''image'' = image_root cfg \<and>
   root_for_category cfg ''images'' = image_root cfg \<and>
   root_for_category cfg ''video'' = video_root cfg \<and>
   root_for_category cfg ''videos'' = video_root cfg \<and>
   root_for_category cfg ''audio'' = audio_root cfg \<and>
   (strip ''/'' c \<notin> set [''images'', ''image'', ''audio'', ''videos'', ''video''] \<longrightarrow>
      root_for_category cfg c = (if strip ''/'' c = [] then ''media'' else strip ''/'' c)) \<and>
   (c \<noteq> [] \<and> hd c \<noteq> CHR ''/'' \<and> last c \<noteq> CHR ''/'' \<and>
    c \<notin> set [''images'', ''image'', ''audio'', ''videos'', ''video''] \<longrightarrow>
      root_for_category cfg c = c) \<and>
   build_blob_name cfg now u ''image'' e = build_blob_name cfg now u ''images'' e"
proof (intro conjI impI)
  assume a: "strip ''/'' c \<notin> set [''images'', ''image'', ''audio'', ''videos'', ''video'']"
  then show "root_for_category cfg c = (if strip ''/'' c = [] then ''media'' else strip ''/'' c)"
    by (rule root_stripped)
next
  assume a: "c \<noteq> [] \<and> hd c \<noteq> CHR ''/'' \<and> last c \<noteq> CHR ''/'' \<and>
    c \<notin> set [''images'', ''image'', ''audio'', ''videos'', ''video'']"
  then have s: "strip ''/'' c = c" by (intro strip_unchanged) simp_all
  with a have "strip ''/'' c \<notin> set [''images'', ''image'', ''audio'', ''videos'', ''video'']"
    by simp
  from root_stripped [OF this] show "root_for_category cfg c = c"
    using a s by simp
next
  show "build_blob_name cfg now u ''image'' e = build_blob_name cfg now u ''images'' e"
    by (simp add: build_blob_name_def root_known)
qed (simp_all add: root_known)

theorem root_for_category_resolution_witness:
  "root_for_category
     \<lparr>connection_string = ''cs'', container = ''media'',
      public_base_url = ''https://cdn.example.com'', path_prefix = None,
      image_root = ''img'', audio_root = ''snd'', video_root = ''vid''\<rparr> ''/thumbs/'' = ''thumbs'' \<and>
   root_for_category
     \<lparr>connection_string = ''cs'', container = ''media'',
      public_base_url = ''https://cdn.example.com'', path_prefix = None,
      image_root = ''img'', audio_root = ''snd'', video_root = ''vid''\<rparr> ''docs'' = ''docs''"
proof -
  let ?cfg = "\<lparr>connection_string = ''cs'', container = ''media'',
      public_base_url = ''https://cdn.example.com'', path_prefix = None,
      image_root = ''img'', audio_root = ''snd'', video_root = ''vid''\<rparr>"
  have s: "strip ''/'' ''/thumbs/'' = ''thumbs''" by (simp add: strip_def)
  have "root_for_category ?cfg ''/thumbs/'' = ''thumbs''"
    using root_for_category_resolution [of ?cfg "''/thumbs/''"] by (simp add: s)
  moreover have "root_for_category ?cfg ''docs'' = ''docs''"
    using root_for_category_resolution [of ?cfg "''docs''"] by simp
  ultimately show ?thesis by simp
qed

text \<open>
  Claim C7 as written fails: the unknown category \<open>/thumbs/\<close> does not resolve to its
  literal name.
\<close>

theorem root_for_category_literal_counterexample:
  "root_for_category
     \<lparr>connection_string = ''cs'', container = ''media'',
      public_base_url = ''https://cdn.example.com'', path_prefix = None,
      image_root = ''img'', audio_root = ''snd'', video_root = ''vid''\<rparr> ''/thumbs/'' \<noteq>
   spec_root_for_category
     \<lparr>connection_string = ''cs'', container = ''media'',
      public_base_url = ''https://cdn.example.com'', path_prefix = None,
      image_root = ''img'', audio_root = ''snd'', video_root = ''vid''\<rparr> ''/thumbs/''"
  by (simp add: root_for_category_def spec_root_for_category_def strip_def str_or_def)

section \<open>Image quality\<close>

lemma allowed_qualities_sorted:
  "join '', '' (sort [''low'', ''medium'', ''high'', ''auto'']) = ''auto, high, low, medium''"
  by code_simp

lemma normalize_quality_cases:
  "normalize_quality e q =
     (if lower q = ''standard'' then Inr ''medium''
      else if lower q = ''hd'' then Inr ''high''
      else if lower q \<in> set [''low'', ''medium'', ''high'', ''auto''] then Inr (lower q)
      else Inl (ValueError (''quality must be one of auto, high, low, medium (received: '' @
                            py_repr e (PyStr q) @ '')'')))"
  unfolding normalize_quality_def Let_def allowed_qualities_sorted
  by simp

lemma generate_image_invalid_quality:
  "normalize_quality e q = Inl exn \<Longrightarrow>
   generate_image e svc prompt size_arg q count user tr = (Inl exn, tr)"
  by (simp add: generate_image_def)

lemma lower_examples:
  "lower ''standard'' = ''standard''" "lower ''hd'' = ''hd''" "lower ''LOW'' = ''low''"
  "lower ''High'' = ''high''" "lower ''auto'' = ''auto''"
  by (simp_all add: lower_def lower_char_def)

text \<open>
  Claim C3. A quality whose lower-case form is \<open>standard\<close> becomes \<open>medium\<close>, \<open>hd\<close>
  becomes \<open>high\<close>, a lower-case form in \<open>low, medium, high, auto\<close> is kept, and every other
  string is a validation error naming the accepted set and the received value; the error
  leaves \<open>generate_image\<close> before any call to the provider. Each of \<open>standard\<close>, \<open>hd\<close>,
  \<open>LOW\<close>, \<open>High\<close> and \<open>auto\<close> normalizes to one of the four values.
\<close>

theorem image_quality_normalization:
  "normalize_quality e q =
     (if lower q = ''standard'' then Inr ''medium''
      else if lower q = ''hd'' then Inr ''high''
      else if lower q \<in> set [''low'', ''medium'', ''high'', ''auto''] then Inr (lower q)
      else Inl (ValueError (''quality must be one of auto, high, low, medium (received: '' @
                            py_repr e (PyStr q) @ '')''))) \<and>
   (normalize_quality e q = Inl exn \<longrightarrow>
      generate_image e svc prompt size_arg q count user tr = (Inl exn, tr)) \<and>
   normalize_quality e ''standard'' = Inr ''medium'' \<and>
   normalize_quality e ''hd'' = Inr ''high'' \<and>
   normalize_quality e ''LOW'' = Inr ''low'' \<and>
   normalize_quality e ''High'' = Inr ''high'' \<and>
   normalize_quality e ''auto'' = Inr ''auto''"
proof (intro conjI impI)
  show "normalize_quality e q =
     (if lower q = ''standard'' then Inr ''medium''
      else if lower q = ''hd'' then Inr ''high''
      else if lower q \<in> set [''low'', ''medium'', ''high'', ''auto''] then Inr (lower q)
      else Inl (ValueError (''quality must be one of auto, high, low, medium (received: '' @
                            py_repr e (PyStr q) @ '')'')))"
    by (rule normalize_quality_cases)
next
  assume "normalize_quality e q = Inl exn"
  then show "generate_image e svc prompt size_arg q count user tr = (Inl exn, tr)"
    by (rule generate_image_invalid_quality)
qed (simp_all add: normalize_quality_cases lower_examples)

theorem image_quality_normalization_witness:
  "normalize_quality example_env ''ultra'' =
     Inl (ValueError ''quality must be one of auto, high, low, medium (received: <repr>)'') \<and>
   generate_image example_env example_service ''a cat'' ''1024x1024'' ''ultra'' 1 None [] =
     (Inl (ValueError ''quality must be one of auto, high, low, medium (received: <repr>)''), [])"
proof -
  have l: "lower ''ultra'' = ''ultra''" by (simp add: lower_def lower_char_def)
  have h: "normalize_quality example_env ''ultra'' =
     Inl (ValueError ''quality must be one of auto, high, low, medium (received: <repr>)'')"
    using image_quality_normalization [of example_env "''ultra''"]
    by (simp add: l example_env_def)
  with image_quality_normalization [of example_env "''ultra''"
      "ValueError ''quality must be one of auto, high, low, medium (received: <repr>)''"
      example_service "''a cat''" "''1024x1024''" 1 None "[]"]
  show ?thesis by simp
qed

section \<open>Validation, the Azure variant and the chat response format\<close>

text \<open>
  Claim C6. A video request whose \<open>seconds\<close> is not 4, 8 or 12 fails with a validation
  error, and nothing has been sent to the provider.
\<close>

theorem video_seconds_validation:
  "seconds \<notin> {4, 8, 12} \<Longrightarrow>
   tool_generate_video e svc prompt model seconds size_arg variant tr =
     (Inl (ValueError ''seconds must be one of 4, 8, or 12''), tr)"
  by (simp add: tool_generate_video_def)

theorem video_seconds_validation_witness:
  "(5::int) \<notin> {4, 8, 12} \<and>
   tool_generate_video example_env example_service ''a river'' None 5 ''1280x720'' ''video'' [] =
     (Inl (ValueError ''seconds must be one of 4, 8, or 12''), [])"
proof -
  have h: "(5::int) \<notin> {4, 8, 12}" by simp
  from video_seconds_validation [OF h] h show ?thesis by simp
qed

text \<open>
  Claim C4. On the Azure variant, \<open>generate_video\<close> raises the unsupported-capability
  error before any call to the provider, whatever the prompt, model, seconds, size and
  variant are. Through the tool no call to the provider is made either, and the error is the
  same one whenever the tool's own checks of \<open>seconds\<close> and \<open>variant\<close> pass.
\<close>

theorem azure_video_unsupported:
  assumes "provider (config svc) = Azure"
  shows "generate_video e svc prompt model seconds size_arg variant tr =
           (Inl (RuntimeError ''Azure OpenAI does not currently support video generation''), tr) \<and>
         snd (tool_generate_video e svc prompt model seconds size_arg variant tr) = tr \<and>
         (seconds \<in> {4, 8, 12} \<and> variant \<in> set [''video'', ''thumbnail'', ''spritesheet''] \<longrightarrow>
            tool_generate_video e svc prompt model seconds size_arg variant tr =
              (Inl (RuntimeError ''Azure OpenAI does not currently support video generation''),
               tr))"
  using assms by (simp add: generate_video_def tool_generate_video_def)

theorem azure_video_unsupported_witness:
  "provider (config example_service_azure) = Azure \<and>
   generate_video example_env example_service_azure ''a river'' None 8 ''1280x720''
       ''thumbnail'' [] =
     (Inl (RuntimeError ''Azure OpenAI does not currently support video generation''), []) \<and>
   tool_generate_video example_env example_service_azure ''a river'' None 8 ''1280x720''
       ''thumbnail'' [] =
     (Inl (RuntimeError ''Azure OpenAI does not currently support video generation''), [])"
proof -
  have h: "provider (config example_service_azure) = Azure"
    by (simp add: example_service_azure_def OpenAIService_init_def)
  from azure_video_unsupported [OF h, of example_env "''a river''" None 8 "''1280x720''"
      "''thumbnail''" "[]"] h
  show ?thesis by simp
qed

lemma chat_completion_dispatch:
  "\<exists>req. snd (chat_completion e svc prompt system_prompt model temperature top_p
                 max_output_tokens user rf presence_penalty frequency_penalty seed metadata tr) =
           tr @ [ChatCreate req] \<and>
         cr_response_format req = response_format_param rf"
  by (auto simp: chat_completion_def Let_def split: sum.splits list.splits)

text \<open>
  Claim C8, as amended. An absent or empty \<open>response_format\<close> gives no constraint; a
  non-empty string whose lower-case form is \<open>json\<close> gives \<open>{"type": "json_object"}\<close>; any
  other non-empty string \<open>s\<close> gives \<open>{"type": s}\<close>. The request sent to the provider
  carries that value.
\<close>

theorem chat_response_format:
  "response_format_param None = None \<and>
   response_format_param (Some []) = None \<and>
   (s \<noteq> [] \<and> lower s = ''json'' \<longrightarrow>
      response_format_param (Some s) = Some [(''type'', ''json_object'')]) \<and>
   (s \<noteq> [] \<and> lower s \<noteq> ''json'' \<longrightarrow>
      response_format_param (Some s) = Some [(''type'', s)]) \<and>
   (\<exists>req. snd (chat_completion e svc prompt system_prompt model temperature top_p
                 max_output_tokens user rf presence_penalty frequency_penalty seed metadata tr) =
           tr @ [ChatCreate req] \<and>
         cr_response_format req = response_format_param rf)"
  using chat_completion_dispatch [of e svc prompt system_prompt model temperature top_p
      max_output_tokens user rf presence_penalty frequency_penalty seed metadata tr]
  by (simp add: response_format_param_def)

theorem chat_response_format_witness:
  "response_format_param (Some ''JSON'') = Some [(''type'', ''json_object'')] \<and>
   response_format_param (Some ''text'') = Some [(''type'', ''text'')]"
proof -
  have a: "''JSON'' \<noteq> [] \<and> lower ''JSON'' = ''json''"
    by (simp add: lower_def lower_char_def)
  have b: "''text'' \<noteq> [] \<and> lower ''text'' \<noteq> ''json''"
    by (simp add: lower_def lower_char_def)
  from chat_response_format [of "''JSON''"] a
  have "response_format_param (Some ''JSON'') = Some [(''type'', ''json_object'')]" by blast
  moreover from chat_response_format [of "''text''"] b
  have "response_format_param (Some ''text'') = Some [(''type'', ''text'')]" by blast
  ultimately show ?thesis by simp
qed

text \<open>
  Claim C8 as written fails: \<open>JSON\<close> is not equal to \<open>json\<close> and is not passed through.
\<close>

theorem chat_response_format_counterexample:
  "response_format_param (Some ''JSON'') \<noteq> spec_response_format (Some ''JSON'')"
  by (simp add: response_format_param_def spec_response_format_def lower_def lower_char_def)

section \<open>Text extraction\<close>

lemma join_empty_sep: "join [] xs = concat xs"
  by (induction "[] :: string" xs rule: join.induct) simp_all

lemma extract_step_acc: "extract_step r acc c = acc @ extract_step r [] c"
  by (cases c) (simp_all add: extract_step_def split: option.splits)

lemma foldl_extract_step:
  "foldl (extract_step r) acc xs = acc @ concat (map (extract_step r []) xs)"
proof (induction xs arbitrary: acc)
  case Nil
  show ?case by simp
next
  case (Cons x xs)
  have "foldl (extract_step r) acc (x # xs) = foldl (extract_step r) (extract_step r acc x) xs"
    by simp
  also have "\<dots> = extract_step r acc x @ concat (map (extract_step r []) xs)"
    by (rule Cons.IH)
  also have "\<dots> = (acc @ extract_step r [] x) @ concat (map (extract_step r []) xs)"
    by (simp only: extract_step_acc [of r acc x])
  finally show ?case by simp
qed

lemma extract_text_list:
  "extract_text r (PyList xs) = concat (concat (map (extract_step r []) xs))"
  by (simp add: extract_text_def join_empty_sep foldl_extract_step)

lemma extract_text_append:
  "extract_text r (PyList (xs @ ys)) = extract_text r (PyList xs) @ extract_text r (PyList ys)"
  by (simp add: extract_text_list)

lemma extract_text_single: "extract_text r (PyList [c]) = concat (extract_step r [] c)"
  by (simp add: extract_text_list)

text \<open>
  Claim C9, as amended. A string content is returned unchanged and an absent content gives
  the empty string. The text of a sequence of chunks is the concatenation, in order, of what
  each chunk gives: a dict marked \<open>text\<close> gives its text (nothing when the text is missing
  or empty), a dict marked \<open>tool_call\<close> gives its textual representation, a dict of any
  other type gives nothing, and a chunk that is not a dict gives its textual representation.
\<close>

theorem chat_text_extraction:
  "extract_text r (PyStr s) = s \<and>
   extract_text r PyNone = [] \<and>
   extract_text r (PyList []) = [] \<and>
   extract_text r (PyList (xs @ ys)) = extract_text r (PyList xs) @ extract_text r (PyList ys) \<and>
   (map_of d ''type'' = Some (PyStr ''text'') \<and> map_of d ''text'' = Some t \<and> truthy t \<longrightarrow>
      extract_text r (PyList [PyDict d]) = py_str r t) \<and>
   (map_of d ''type'' = Some (PyStr ''text'') \<and>
    (case map_of d ''text'' of None \<Rightarrow> True | Some t \<Rightarrow> \<not> truthy t) \<longrightarrow>
      extract_text r (PyList [PyDict d]) = []) \<and>
   (map_of d ''type'' = Some (PyStr ''tool_call'') \<longrightarrow>
      extract_text r (PyList [PyDict d]) = r (PyDict d)) \<and>
   (map_of d ''type'' \<noteq> Some (PyStr ''text'') \<and>
    map_of d ''type'' \<noteq> Some (PyStr ''tool_call'') \<longrightarrow>
      extract_text r (PyList [PyDict d]) = []) \<and>
   (\<not> is_dict c \<longrightarrow> extract_text r (PyList [c]) = py_str r c)"
proof (intro conjI impI)
  show "extract_text r (PyStr s) = s" by (simp add: extract_text_def)
  show "extract_text r PyNone = []" by (simp add: extract_text_def)
  show "extract_text r (PyList []) = []" by (simp add: extract_text_list)
  show "extract_text r (PyList (xs @ ys)) = extract_text r (PyList xs) @ extract_text r (PyList ys)"
    by (rule extract_text_append)
next
  assume "map_of d ''type'' = Some (PyStr ''text'') \<and> map_of d ''text'' = Some t \<and> truthy t"
  then show "extract_text r (PyList [PyDict d]) = py_str r t"
    by (simp add: extract_text_single extract_step_def)
next
  assume "map_of d ''type'' = Some (PyStr ''text'') \<and>
    (case map_of d ''text'' of None \<Rightarrow> True | Some t \<Rightarrow> \<not> truthy t)"
  then show "extract_text r (PyList [PyDict d]) = []"
    by (auto simp: extract_text_single extract_step_def split: option.splits)
next
  assume "map_of d ''type'' = Some (PyStr ''tool_call'')"
  then show "extract_text r (PyList [PyDict d]) = r (PyDict d)"
    by (simp add: extract_text_single extract_step_def py_str_def)
next
  assume "map_of d ''type'' \<noteq> Some (PyStr ''text'') \<and>
    map_of d ''type'' \<noteq> Some (PyStr ''tool_call'')"
  then show "extract_text r (PyList [PyDict d]) = []"
    by (simp add: extract_text_single extract_step_def)
next
  assume "\<not> is_dict c"
  then show "extract_text r (PyList [c]) = py_str r c"
    by (cases c) (simp_all add: extract_text_single extract_step_def)
qed

theorem chat_text_extraction_witness:
  "extract_text (py_repr example_env)
     (PyList ([PyDict [(''type'', PyStr ''text''), (''text'', PyStr ''a'')]] @
              [PyStr ''b''])) = ''ab'' \<and>
   extract_text (py_repr example_env)
     (PyList ([PyDict [(''type'', PyStr ''image_url'')]] @
              [PyDict [(''type'', PyStr ''tool_call'')]])) = ''<repr>'' \<and>
   extract_text (py_repr example_env)
     (PyList [PyDict [(''type'', PyStr ''text'')]]) = []"
proof -
  let ?r = "py_repr example_env"
  let ?t = "[(''type'', PyStr ''text''), (''text'', PyStr ''a'')]"
  let ?i = "[(''type'', PyStr ''image_url'')]"
  let ?c = "[(''type'', PyStr ''tool_call'')]"
  let ?e = "[(''type'', PyStr ''text'')]"
  have t: "extract_text ?r (PyList [PyDict ?t]) = ''a''"
    using chat_text_extraction [of ?r _ _ _ ?t "PyStr ''a''"] by (simp add: py_str_def)
  have b: "extract_text ?r (PyList [PyStr ''b'']) = ''b''"
    using chat_text_extraction [of ?r _ _ _ _ _ "PyStr ''b''"] by (simp add: py_str_def)
  have i: "extract_text ?r (PyList [PyDict ?i]) = []"
    using chat_text_extraction [of ?r _ _ _ ?i] by simp
  have c: "extract_text ?r (PyList [PyDict ?c]) = ''<repr>''"
    using chat_text_extraction [of ?r _ _ _ ?c] by (simp add: example_env_def)
  have e: "extract_text ?r (PyList [PyDict ?e]) = []"
    using chat_text_extraction [of ?r _ _ _ ?e] by simp
  have tb: "extract_text ?r (PyList ([PyDict ?t] @ [PyStr ''b''])) = ''ab''"
    using chat_text_extraction [of ?r _ "[PyDict ?t]" "[PyStr ''b'']"] t b by simp
  have ic: "extract_text ?r (PyList ([PyDict ?i] @ [PyDict ?c])) = ''<repr>''"
    using chat_text_extraction [of ?r _ "[PyDict ?i]" "[PyDict ?c]"] i c by simp
  from tb ic e show ?thesis by blast
qed

text \<open>
  Claim C9 as written fails: a chunk that is not a dict, here a plain string, is neither
  marked as text nor as a tool call, and is kept.
\<close>

theorem chat_text_extraction_counterexample:
  "extract_text (py_repr example_env) (PyList [PyStr ''hi'']) \<noteq>
   spec_extract_text (py_repr example_env) (PyList [PyStr ''hi''])"
  by (simp add: extract_text_def spec_extract_text_def spec_chunk_text_def extract_step_def
      py_str_def)

section \<open>Persistence\<close>



lemma persist_media_bytes_no_storage:
  "bs \<noteq> [] \<Longrightarrow> blob_uploader svc = None \<Longrightarrow>
   persist_media_bytes e svc (Some bs) c x ct tr = (Inl (RuntimeError STORAGE_REQUIRED_MSG), tr)"
  by (simp add: persist_media_bytes_def)



lemma persist_media_bytes_no_url_without_storage:
  "blob_uploader svc = None \<Longrightarrow>
   persist_media_bytes e svc payload c x ct tr = (Inr None, tr) \<or>
   persist_media_bytes e svc payload c x ct tr = (Inl (RuntimeError STORAGE_REQUIRED_MSG), tr)"
  by (auto simp: persist_media_bytes_def split: option.splits)

lemma persist_base64_media_empty:
  "persist_base64_media e svc None c x ct tr = (Inr None, tr)"
  "persist_base64_media e svc (Some []) c x ct tr = (Inr None, tr)"
  by (simp_all add: persist_base64_media_def)

lemma persist_base64_media_invalid:
  "s \<noteq> [] \<Longrightarrow> b64decode e s = None \<Longrightarrow>
   persist_base64_media e svc (Some s) c x ct tr =
     (Inr None, tr @ [LogException (''Received invalid base64 payload for '' @ c @ '' artifact'')])"
  by (simp add: persist_base64_media_def)

lemma persist_base64_media_decoded:
  "s \<noteq> [] \<Longrightarrow> b64decode e s = Some bs \<Longrightarrow>
   persist_base64_media e svc (Some s) c x ct tr = persist_media_bytes e svc (Some bs) c x ct tr"
  by (simp add: persist_base64_media_def)

lemma require_blob_url_none:
  "require_blob_url None t =
     Inl (RuntimeError (''Unable to produce a publicly accessible '' @ t @ '' asset URL. '' @
                        STORAGE_REQUIRED_MSG))"
  by (simp add: require_blob_url_def)


lemma persist_images_raises:
  assumes "persist_base64_media e svc (b64_json item) ''images'' ''png'' (Some ''image/png'') tr =
             (Inl exn, tr')"
  shows "persist_images e svc (item # items) tr = (Inl exn, tr')"
  using assms by simp


lemma example_payloads:
  "py_b64decode ''aGk='' = Some ''hi''"
  "py_b64decode ''abc'' = None"
  by code_simp+

lemma example_quality_size:
  "normalize_quality e ''high'' = Inr ''high''"
  "normalize_size e ''1024x1024'' = Inr ''1024x1024''"
  by (simp_all add: normalize_quality_cases normalize_size_def Let_def lower_def lower_char_def)

section \<open>Storage not configured\<close>

lemma generate_audio_storage_absent:
  assumes "blob_uploader svc = None"
    and "speech_create (client svc) (speech_request_of svc input_text model voice fmt speed) = Inr bs"
    and "bs \<noteq> []"
  shows "generate_audio e svc input_text model voice fmt speed tr =
           (Inl (RuntimeError STORAGE_REQUIRED_MSG),
            tr @ [SpeechCreate (speech_request_of svc input_text model voice fmt speed)])"
  using assms by (simp add: generate_audio_def Let_def persist_media_bytes_no_storage)

lemma generate_video_storage_absent:
  assumes "blob_uploader svc = None"
    and "provider (config svc) \<noteq> Azure"
    and "videos_create_and_poll (client svc) (video_request_of svc prompt model seconds size_arg) =
           Inr job"
    and "job_status job = ''completed''"
    and "videos_download_content (client svc) (job_id job) variant = Inr bs"
    and "bs \<noteq> []"
  shows "generate_video e svc prompt model seconds size_arg variant tr =
           (Inl (RuntimeError STORAGE_REQUIRED_MSG),
            tr @ [VideosCreateAndPoll (video_request_of svc prompt model seconds size_arg),
                  VideosDownloadContent (job_id job) variant])"
  using assms
  by (simp add: generate_video_def Let_def persist_media_bytes_no_storage split: prod.splits)

lemma persist_images_storage_absent:
  assumes "blob_uploader svc = None"
  shows "persist_images e svc (item # items) tr =
           (Inl (RuntimeError STORAGE_REQUIRED_MSG), tr) \<or>
         (\<exists>tr'. persist_images e svc (item # items) tr =
           (Inl (RuntimeError (''Unable to produce a publicly accessible image asset URL. '' @
                               STORAGE_REQUIRED_MSG)), tr') \<and>
           filter is_upload tr' = filter is_upload tr)"
proof (cases "b64_json item")
  case None
  then show ?thesis
    by (simp add: persist_base64_media_empty require_blob_url_none)
next
  case (Some s)
  show ?thesis
  proof (cases "s = []")
    case True
    with Some show ?thesis
      by (simp add: persist_base64_media_empty require_blob_url_none)
  next
    case False
    show ?thesis
    proof (cases "b64decode e s")
      case None
      with Some False show ?thesis
        by (simp add: persist_base64_media_invalid require_blob_url_none)
    next
      case (Some bs)
      with \<open>b64_json item = Some s\<close> False
      have p: "persist_base64_media e svc (b64_json item) ''images'' ''png'' (Some ''image/png'') tr =
          persist_media_bytes e svc (Some bs) ''images'' ''png'' (Some ''image/png'') tr"
        by (simp add: persist_base64_media_decoded)
      from persist_media_bytes_no_url_without_storage [OF assms, of e "Some bs" "''images''"
          "''png''" "Some ''image/png''" tr]
      show ?thesis
        by (auto simp: p require_blob_url_none)
    qed
  qed
qed

lemma generate_image_storage_absent_decoded:
  assumes "blob_uploader svc = None"
    and "normalize_quality e q = Inr q'"
    and "normalize_size e sz = Inr sz'"
    and "images_generate (client svc)
           \<lparr>ir_model = image_model (config svc), ir_prompt = prompt, ir_size = sz',
            ir_quality = q', ir_n = count, ir_user = user\<rparr> = Inr resp"
    and "data resp = item # items"
    and "b64_json item = Some s" and "s \<noteq> []"
    and "b64decode e s = Some ibs" and "ibs \<noteq> []"
  shows "generate_image e svc prompt sz q count user tr =
           (Inl (RuntimeError STORAGE_REQUIRED_MSG),
            tr @ [ImagesGenerate \<lparr>ir_model = image_model (config svc), ir_prompt = prompt,
                                  ir_size = sz', ir_quality = q', ir_n = count,
                                  ir_user = user\<rparr>])"
  using assms
  by (simp add: generate_image_def Let_def persist_base64_media_decoded
      persist_media_bytes_no_storage)

lemma generate_image_storage_absent:
  assumes "blob_uploader svc = None"
    and "normalize_quality e q = Inr q'"
    and "normalize_size e sz = Inr sz'"
    and "images_generate (client svc)
           \<lparr>ir_model = image_model (config svc), ir_prompt = prompt, ir_size = sz',
            ir_quality = q', ir_n = count, ir_user = user\<rparr> = Inr resp"
    and "data resp \<noteq> []"
  shows "fst (generate_image e svc prompt sz q count user tr) =
           Inl (RuntimeError STORAGE_REQUIRED_MSG) \<or>
         fst (generate_image e svc prompt sz q count user tr) =
           Inl (RuntimeError (''Unable to produce a publicly accessible image asset URL. '' @
                              STORAGE_REQUIRED_MSG))"
proof -
  from assms(5) obtain item items where d: "data resp = item # items"
    by (cases "data resp") auto
  let ?tr1 = "tr @ [ImagesGenerate \<lparr>ir_model = image_model (config svc), ir_prompt = prompt,
      ir_size = sz', ir_quality = q', ir_n = count, ir_user = user\<rparr>]"
  from persist_images_storage_absent [OF assms(1), of e item items ?tr1]
  show ?thesis
    using assms(2-4) d by (auto simp: generate_image_def Let_def)
qed

lemma storage_message_names_settings:
  "\<exists>a b. STORAGE_REQUIRED_MSG =
     a @ ''AZURE_STORAGE_CONNECTION_STRING, AZURE_BLOB_CONTAINER, and '' @
     ''AZURE_BLOB_PUBLIC_BASE_URL'' @ b"
proof (intro exI)
  show "STORAGE_REQUIRED_MSG =
      ''Azure Blob Storage uploads are not configured. Set '' @
      ''AZURE_STORAGE_CONNECTION_STRING, AZURE_BLOB_CONTAINER, and '' @
      ''AZURE_BLOB_PUBLIC_BASE_URL'' @ '' to enable asset URLs.''"
    by (simp add: STORAGE_REQUIRED_MSG_def)
qed

text \<open>
  Claim C2. With no storage configuration (no uploader), an audio, video or image
  generation whose provider call returns a non-empty payload fails with the
  storage-not-configured error, whose message names the three missing settings; no result
  is returned. For images this holds for the first item when its payload decodes to
  non-empty bytes; for any non-empty list of items the call fails with an error whose
  message ends with the storage-not-configured message.
\<close>

theorem storage_absent_fails:
  assumes "blob_uploader svc = None"
  shows "(speech_create (client svc) (speech_request_of svc input_text model voice fmt speed) = Inr bs \<and>
          bs \<noteq> [] \<longrightarrow>
            generate_audio e svc input_text model voice fmt speed tr =
              (Inl (RuntimeError STORAGE_REQUIRED_MSG),
               tr @ [SpeechCreate (speech_request_of svc input_text model voice fmt speed)])) \<and>
         (provider (config svc) \<noteq> Azure \<and>
          videos_create_and_poll (client svc)
            (video_request_of svc prompt vmodel seconds size_arg) = Inr job \<and>
          job_status job = ''completed'' \<and>
          videos_download_content (client svc) (job_id job) variant = Inr vbs \<and> vbs \<noteq> [] \<longrightarrow>
            generate_video e svc prompt vmodel seconds size_arg variant tr =
              (Inl (RuntimeError STORAGE_REQUIRED_MSG),
               tr @ [VideosCreateAndPoll (video_request_of svc prompt vmodel seconds size_arg),
                     VideosDownloadContent (job_id job) variant])) \<and>
         (normalize_quality e q = Inr q' \<and> normalize_size e sz = Inr sz' \<and>
          images_generate (client svc)
            \<lparr>ir_model = image_model (config svc), ir_prompt = prompt, ir_size = sz',
             ir_quality = q', ir_n = count, ir_user = user\<rparr> = Inr resp \<and>
          data resp = item # items \<and> b64_json item = Some s \<and> s \<noteq> [] \<and>
          b64decode e s = Some ibs \<and> ibs \<noteq> [] \<longrightarrow>
            generate_image e svc prompt sz q count user tr =
              (Inl (RuntimeError STORAGE_REQUIRED_MSG),
               tr @ [ImagesGenerate \<lparr>ir_model = image_model (config svc), ir_prompt = prompt,
                                     ir_size = sz', ir_quality = q', ir_n = count,
                                     ir_user = user\<rparr>])) \<and>
         (normalize_quality e q = Inr q' \<and> normalize_size e sz = Inr sz' \<and>
          images_generate (client svc)
            \<lparr>ir_model = image_model (config svc), ir_prompt = prompt, ir_size = sz',
             ir_quality = q', ir_n = count, ir_user = user\<rparr> = Inr resp \<and>
          data resp \<noteq> [] \<longrightarrow>
            fst (generate_image e svc prompt sz q count user tr) =
              Inl (RuntimeError STORAGE_REQUIRED_MSG) \<or>
            fst (generate_image e svc prompt sz q count user tr) =
              Inl (RuntimeError (''Unable to produce a publicly accessible image asset URL. '' @
                                 STORAGE_REQUIRED_MSG))) \<and>
         (\<exists>a b. STORAGE_REQUIRED_MSG =
            a @ ''AZURE_STORAGE_CONNECTION_STRING, AZURE_BLOB_CONTAINER, and '' @
            ''AZURE_BLOB_PUBLIC_BASE_URL'' @ b)"
proof (intro conjI impI)
  show "\<exists>a b. STORAGE_REQUIRED_MSG =
      a @ ''AZURE_STORAGE_CONNECTION_STRING, AZURE_BLOB_CONTAINER, and '' @
      ''AZURE_BLOB_PUBLIC_BASE_URL'' @ b"
    by (rule storage_message_names_settings)
next
  assume "speech_create (client svc) (speech_request_of svc input_text model voice fmt speed) = Inr bs \<and>
    bs \<noteq> []"
  then show "generate_audio e svc input_text model voice fmt speed tr =
      (Inl (RuntimeError STORAGE_REQUIRED_MSG),
       tr @ [SpeechCreate (speech_request_of svc input_text model voice fmt speed)])"
    using generate_audio_storage_absent [OF assms] by blast
next
  assume "provider (config svc) \<noteq> Azure \<and>
    videos_create_and_poll (client svc)
      (video_request_of svc prompt vmodel seconds size_arg) = Inr job \<and>
    job_status job = ''completed'' \<and>
    videos_download_content (client svc) (job_id job) variant = Inr vbs \<and> vbs \<noteq> []"
  then show "generate_video e svc prompt vmodel seconds size_arg variant tr =
      (Inl (RuntimeError STORAGE_REQUIRED_MSG),
       tr @ [VideosCreateAndPoll (video_request_of svc prompt vmodel seconds size_arg),
             VideosDownloadContent (job_id job) variant])"
    using generate_video_storage_absent [OF assms] by blast
next
  assume "normalize_quality e q = Inr q' \<and> normalize_size e sz = Inr sz' \<and>
    images_generate (client svc)
      \<lparr>ir_model = image_model (config svc), ir_prompt = prompt, ir_size = sz',
       ir_quality = q', ir_n = count, ir_user = user\<rparr> = Inr resp \<and>
    data resp = item # items \<and> b64_json item = Some s \<and> s \<noteq> [] \<and>
    b64decode e s = Some ibs \<and> ibs \<noteq> []"
  then show "generate_image e svc prompt sz q count user tr =
      (Inl (RuntimeError STORAGE_REQUIRED_MSG),
       tr @ [ImagesGenerate \<lparr>ir_model = image_model (config svc), ir_prompt = prompt,
                             ir_size = sz', ir_quality = q', ir_n = count,
                             ir_user = user\<rparr>])"
    using generate_image_storage_absent_decoded [OF assms] by blast
next
  assume "normalize_quality e q = Inr q' \<and> normalize_size e sz = Inr sz' \<and>
    images_generate (client svc)
      \<lparr>ir_model = image_model (config svc), ir_prompt = prompt, ir_size = sz',
       ir_quality = q', ir_n = count, ir_user = user\<rparr> = Inr resp \<and>
    data resp \<noteq> []"
  then show "fst (generate_image e svc prompt sz q count user tr) =
      Inl (RuntimeError STORAGE_REQUIRED_MSG) \<or>
    fst (generate_image e svc prompt sz q count user tr) =
      Inl (RuntimeError (''Unable to produce a publicly accessible image asset URL. '' @
                         STORAGE_REQUIRED_MSG))"
    using generate_image_storage_absent [OF assms] by blast
qed

theorem storage_absent_fails_witness:
  "blob_uploader example_service_no_storage = None \<and>
   fst (generate_audio example_env example_service_no_storage ''hello'' None None ''mp3'' 1 []) =
     Inl (RuntimeError STORAGE_REQUIRED_MSG) \<and>
   fst (generate_video example_env example_service_no_storage ''a river'' None 8 ''1280x720''
          ''thumbnail'' []) =
     Inl (RuntimeError STORAGE_REQUIRED_MSG) \<and>
   fst (generate_image example_env example_service_no_storage ''a cat'' ''1024x1024'' ''high'' 1
          None []) =
     Inl (RuntimeError STORAGE_REQUIRED_MSG)"
proof -
  let ?svc = example_service_no_storage
  let ?job = "\<lparr>job_id = ''video_1'', job_status = ''completed'', job_model = ''sora-2'',
               job_size = ''1280x720'', job_seconds = ''8''\<rparr>"
  let ?item = "\<lparr>b64_json = Some ''aGk='', item_revised_prompt = None\<rparr>"
  let ?resp = "\<lparr>data = [?item], created = 0, response_model = None\<rparr>"
  have h: "blob_uploader ?svc = None"
    by (simp add: example_service_no_storage_def OpenAIService_init_def)
  note inst = storage_absent_fails [OF h, where e = example_env and tr = "[]"
      and input_text = "''hello''" and model = None and voice = None and fmt = "''mp3''" and speed = 1
      and bs = "''RIFF''"
      and prompt = "''a river''" and vmodel = None and seconds = 8 and size_arg = "''1280x720''"
      and variant = "''thumbnail''" and job = ?job and vbs = "''PNG''"]
  have a: "speech_create (client ?svc) (speech_request_of ?svc ''hello'' None None ''mp3'' 1) =
      Inr ''RIFF'' \<and> ''RIFF'' \<noteq> []"
    by (simp add: example_service_no_storage_def OpenAIService_init_def example_client_def)
  have "generate_audio example_env ?svc ''hello'' None None ''mp3'' 1 [] =
      (Inl (RuntimeError STORAGE_REQUIRED_MSG),
       [] @ [SpeechCreate (speech_request_of ?svc ''hello'' None None ''mp3'' 1)])"
    using inst [THEN conjunct1] a by (rule mp)
  then have r1: "fst (generate_audio example_env ?svc ''hello'' None None ''mp3'' 1 []) =
      Inl (RuntimeError STORAGE_REQUIRED_MSG)"
    by simp
  have b: "provider (config ?svc) \<noteq> Azure \<and>
      videos_create_and_poll (client ?svc)
        (video_request_of ?svc ''a river'' None 8 ''1280x720'') = Inr ?job \<and>
      job_status ?job = ''completed'' \<and>
      videos_download_content (client ?svc) (job_id ?job) ''thumbnail'' = Inr ''PNG'' \<and>
      ''PNG'' \<noteq> []"
    by (simp add: example_service_no_storage_def OpenAIService_init_def example_client_def
        example_config_def video_request_of_def opt_or_def)
  have "generate_video example_env ?svc ''a river'' None 8 ''1280x720'' ''thumbnail'' [] =
      (Inl (RuntimeError STORAGE_REQUIRED_MSG),
       [] @ [VideosCreateAndPoll (video_request_of ?svc ''a river'' None 8 ''1280x720''),
             VideosDownloadContent (job_id ?job) ''thumbnail''])"
    using inst [THEN conjunct2, THEN conjunct1] b by (rule mp)
  then have r2: "fst (generate_video example_env ?svc ''a river'' None 8 ''1280x720''
      ''thumbnail'' []) = Inl (RuntimeError STORAGE_REQUIRED_MSG)"
    by simp
  note inst3 = storage_absent_fails [OF h, where e = example_env and tr = "[]"
      and prompt = "''a cat''" and sz = "''1024x1024''" and q = "''high''" and count = 1
      and user = None and q' = "''high''" and sz' = "''1024x1024''" and resp = ?resp
      and item = ?item and items = "[]" and s = "''aGk=''" and ibs = "''hi''"]
  have c: "normalize_quality example_env ''high'' = Inr ''high'' \<and>
      normalize_size example_env ''1024x1024'' = Inr ''1024x1024'' \<and>
      images_generate (client ?svc)
        \<lparr>ir_model = image_model (config ?svc), ir_prompt = ''a cat'', ir_size = ''1024x1024'',
         ir_quality = ''high'', ir_n = 1, ir_user = None\<rparr> = Inr ?resp \<and>
      data ?resp = ?item # [] \<and> b64_json ?item = Some ''aGk='' \<and> ''aGk='' \<noteq> [] \<and>
      b64decode example_env ''aGk='' = Some ''hi'' \<and> ''hi'' \<noteq> []"
    by (simp add: example_quality_size example_service_no_storage_def OpenAIService_init_def
        example_client_def example_env_def example_payloads)
  have "generate_image example_env ?svc ''a cat'' ''1024x1024'' ''high'' 1 None [] =
      (Inl (RuntimeError STORAGE_REQUIRED_MSG),
       [] @ [ImagesGenerate \<lparr>ir_model = image_model (config ?svc), ir_prompt = ''a cat'',
                             ir_size = ''1024x1024'', ir_quality = ''high'', ir_n = 1,
                             ir_user = None\<rparr>])"
    using inst3 [THEN conjunct2, THEN conjunct2, THEN conjunct1] c by (rule mp)
  then have r3: "fst (generate_image example_env ?svc ''a cat'' ''1024x1024'' ''high'' 1
      None []) = Inl (RuntimeError STORAGE_REQUIRED_MSG)"
    by simp
  from h r1 r2 r3 show ?thesis by blast
qed

section \<open>Persistence failures\<close>






section \<open>Empty payloads\<close>



lemma generate_image_empty:
  assumes "normalize_quality e q = Inr q'"
    and "normalize_size e sz = Inr sz'"
    and "images_generate (client svc)
           \<lparr>ir_model = image_model (config svc), ir_prompt = prompt, ir_size = sz',
            ir_quality = q', ir_n = count, ir_user = user\<rparr> = Inr resp"
    and "data resp = item # items"
    and "b64_json item = None \<or> b64_json item = Some []"
  shows "generate_image e svc prompt sz q count user tr =
           (Inl (RuntimeError (''Unable to produce a publicly accessible image asset URL. '' @
                               STORAGE_REQUIRED_MSG)),
            tr @ [ImagesGenerate \<lparr>ir_model = image_model (config svc), ir_prompt = prompt,
                                  ir_size = sz', ir_quality = q', ir_n = count,
                                  ir_user = user\<rparr>])"
  using assms
  by (auto simp: generate_image_def Let_def persist_base64_media_empty require_blob_url_none)








end
